theory Spec2Isabelle
  imports Main
begin

section \<open>The user cache of \<^verbatim>\<open>server/usercache.go\<close>\<close>

text \<open>
  The file holds two caches of users, one filled from an LDAP directory and one from a keys
  file, each with an \<^verbatim>\<open>Update\<close> that rebuilds the cache and an \<^verbatim>\<open>Authenticate\<close> that
  looks for a cached key verifying a signature and updates the cache once when it finds none.

  Everything the code reaches outside itself is explicit here:
  \<^item> the \<^verbatim>\<open>ssh\<close> and \<^verbatim>\<open>base64\<close> packages are a record of functions (\<open>sshlib\<close>), a parameter of
    every operation that parses or verifies a key;
  \<^item> the LDAP server and the keys file are interface values: a state together with the
    methods that act on it;
  \<^item> the clock, the statistics sink and the logger are events: every operation returns,
    next to its result, the list of the events it emits, in order;
  \<^item> a Go \<^verbatim>\<open>error\<close> is a value of type \<open>error\<close>, a \<^verbatim>\<open>nil\<close> error is \<open>None\<close>, and a run-time
    panic of a type assertion is the outcome \<open>Panics\<close>;
  \<^item> a Go map that is only indexed is a HOL map; the order in which \<^verbatim>\<open>range\<close> visits a
    map is not fixed by the language, so each \<^verbatim>\<open>range\<close> over a map takes the order of that
    visit as an argument.
\<close>

subsection \<open>Values shared by both caches\<close>

datatype error = Error string

datatype logarg = Str string | Strs "string list"

text \<open>
  \<open>TimeNow\<close> is the call \<^verbatim>\<open>time.Now()\<close> that opens every \<^verbatim>\<open>Update\<close>; \<open>Timing\<close> and \<open>Counter\<close>
  are the calls on the statistics sink (the sample rate is always 1.0, the counter's
  increment always 1, the duration is not modelled); \<open>Debug\<close> and \<open>Warning\<close> are the calls
  on the logger, with the format string and its arguments.
\<close>

datatype event =
    TimeNow
  | Timing string
  | Counter string
  | Debug string "logarg list"
  | Warning string "logarg list"

datatype 'a outcome = Panics | Returns 'a

record 'k User =
  Username :: string
  SSHKeys :: "'k list"
  ARNs :: "string list"
  DefaultRole :: string

text \<open>
  The functions of \<^verbatim>\<open>encoding/base64\<close> and \<^verbatim>\<open>golang.org/x/crypto/ssh\<close> that the code calls.
  \<open>DecodeString\<close> gives the bytes that \<^verbatim>\<open>base64.StdEncoding.DecodeString\<close> returns (the code
  drops its error); the two parsers give \<open>None\<close> where the Go functions return an error;
  \<open>Verify key challenge sig\<close> holds when \<^verbatim>\<open>key.Verify(challenge, sig)\<close> returns \<^verbatim>\<open>nil\<close>.
\<close>

record ('k, 'sg) sshlib =
  DecodeString :: "string \<Rightarrow> string"
  ParsePublicKey :: "string \<Rightarrow> 'k option"
  ParseAuthorizedKey :: "string \<Rightarrow> 'k option"
  Verify :: "'k \<Rightarrow> string \<Rightarrow> 'sg \<Rightarrow> bool"

text \<open>
  Both \<^verbatim>\<open>Update\<close> functions parse a key string with the same lines (120 to 128 and 274 to
  282): decode as base64 and parse the bytes as a public key; when that fails, parse the
  string itself as a line of an authorized-keys file.
\<close>

definition parseKey :: "('k, 'sg) sshlib \<Rightarrow> string \<Rightarrow> 'k option" where
  "parseKey lib eachKey =
     (let sshKeyBytes = DecodeString lib eachKey in
      case ParsePublicKey lib sshKeyBytes of
        Some userSSHKey \<Rightarrow> Some userSSHKey
      | None \<Rightarrow> ParseAuthorizedKey lib eachKey)"

text \<open>The inner loop of both scans: does one of the user's keys verify the signature?\<close>

definition keyVerifies :: "('k, 'sg) sshlib \<Rightarrow> 'k User \<Rightarrow> string \<Rightarrow> 'sg \<Rightarrow> bool" where
  "keyVerifies lib user challenge sshSig =
     list_ex (\<lambda>key. Verify lib key challenge sshSig) (SSHKeys user)"

subsection \<open>The LDAP cache\<close>

text \<open>
  An entry of a search result, with the two accessors of the \<^verbatim>\<open>ldap\<close> package: the values of
  the first attribute of that name (none when there is no such attribute), and the first of
  these values (the empty string when there is none).
\<close>

record Entry =
  DN :: string
  Attributes :: "(string \<times> string list) list"

definition GetAttributeValues :: "Entry \<Rightarrow> string \<Rightarrow> string list" where
  "GetAttributeValues entry attribute =
     (case map_of (Attributes entry) attribute of None \<Rightarrow> [] | Some vs \<Rightarrow> vs)"

definition GetAttributeValue :: "Entry \<Rightarrow> string \<Rightarrow> string" where
  "GetAttributeValue entry attribute =
     (case GetAttributeValues entry attribute of [] \<Rightarrow> [] | v # _ \<Rightarrow> v)"

text \<open>
  A search request: the base, the filter and the attributes asked for. Scope, alias
  handling, limits and controls are the same constants in both requests of the code.
\<close>

record SearchRequest =
  reqBaseDN :: string
  reqFilter :: string
  reqAttributes :: "string list"

text \<open>
  \<^verbatim>\<open>LDAPImplementation\<close>: the server's state and its \<^verbatim>\<open>Search\<close> method, which answers with an
  error or with entries and may change the state. \<^verbatim>\<open>Modify\<close> is never called by this file.
\<close>

record 'w LDAPImplementation =
  srvState :: 'w
  Search :: "'w \<Rightarrow> SearchRequest \<Rightarrow> (error + Entry list) \<times> 'w"

record ('k, 'w) ldapUserCache =
  luc_users :: "string \<rightharpoonup> 'k User"
  luc_groups :: "string \<rightharpoonup> string list"
  luc_server :: "'w LDAPImplementation"
  luc_userAttr :: string
  luc_baseDN :: string
  luc_enableServerRoles :: bool
  luc_roleAttribute :: string
  luc_defaultRole :: string
  luc_defaultRoleAttr :: string

text \<open>The call \<^verbatim>\<open>luc.server.Search(request)\<close>.\<close>

definition luc_Search ::
  "('k, 'w) ldapUserCache \<Rightarrow> SearchRequest \<Rightarrow> (error + Entry list) \<times> ('k, 'w) ldapUserCache" where
  "luc_Search luc request =
     (case Search (luc_server luc) (srvState (luc_server luc)) request of
        (result, w) \<Rightarrow> (result, luc\<lparr>luc_server := (luc_server luc)\<lparr>srvState := w\<rparr>\<rparr>))"

definition groupSearchRequest :: "('k, 'w) ldapUserCache \<Rightarrow> SearchRequest" where
  "groupSearchRequest luc =
     \<lparr>reqBaseDN = luc_baseDN luc, reqFilter = ''(objectClass=groupOfNames)'',
      reqAttributes = [luc_roleAttribute luc]\<rparr>"

definition searchRequest :: "('k, 'w) ldapUserCache \<Rightarrow> SearchRequest" where
  "searchRequest luc =
     \<lparr>reqBaseDN = luc_baseDN luc, reqFilter = ''(sshPublicKey=*)'',
      reqAttributes = [''sshPublicKey'', luc_userAttr luc, ''memberOf'', luc_defaultRoleAttr luc]\<rparr>"

text \<open>
  Lines 95 to 100: every group entry is stored in the group map that is already there.
  Like every operation below, the loop returns the events it emits next to its result.
\<close>

primrec groupLoop ::
  "Entry list \<Rightarrow> ('k, 'w) ldapUserCache \<Rightarrow> ('k, 'w) ldapUserCache \<times> event list" where
  "groupLoop [] luc = (luc, [])"
| "groupLoop (entry # rest) luc =
     (let dn = DN entry;
          arns = GetAttributeValues entry (luc_roleAttribute luc);
          (luc1, evs) = groupLoop rest (luc\<lparr>luc_groups := (luc_groups luc)(dn \<mapsto> arns)\<rparr>)
      in (luc1, Debug ''Adding %s to %s'' [Strs arns, Str dn] # evs))"

text \<open>
  Lines 119 to 131: the keys of one entry. A value that parses in neither form is logged
  and left out; the loop goes on with the next value.
\<close>

primrec userKeysLoop ::
  "('k, 'sg) sshlib \<Rightarrow> string \<Rightarrow> string list \<Rightarrow> 'k list \<Rightarrow> 'k list \<times> event list" where
  "userKeysLoop lib username [] userKeys = (userKeys, [])"
| "userKeysLoop lib username (eachKey # rest) userKeys =
     (case parseKey lib eachKey of
        None \<Rightarrow>
          (let (userKeys1, evs) = userKeysLoop lib username rest userKeys
           in (userKeys1,
               Warning ''SSH key parsing for user %s failed (key was '%s')! This key will not be added into LDAP.''
                 [Str username, Str eachKey] # evs))
      | Some userSSHKey \<Rightarrow> userKeysLoop lib username rest (userKeys @ [userSSHKey]))"

text \<open>
  Lines 140 to 143: the ARNs of one entry. Indexing the group map at a name it does not
  hold gives the nil slice, and appending that adds nothing.
\<close>

primrec memberOfLoop ::
  "(string \<rightharpoonup> string list) \<Rightarrow> string list \<Rightarrow> string list \<Rightarrow> string list \<times> event list" where
  "memberOfLoop groups [] arns = (arns, [])"
| "memberOfLoop groups (groupDN # rest) arns =
     (let (arns1, evs) =
            memberOfLoop groups rest (arns @ (case groups groupDN of None \<Rightarrow> [] | Some as \<Rightarrow> as))
      in (arns1, Debug groupDN [] # evs))"

text \<open>
  Lines 117 to 153: one entry of the user search, written into the user map that is
  already there.
\<close>

definition userEntry ::
  "('k, 'sg) sshlib \<Rightarrow> Entry \<Rightarrow> ('k, 'w) ldapUserCache \<Rightarrow> ('k, 'w) ldapUserCache \<times> event list" where
  "userEntry lib entry luc =
     (let username = GetAttributeValue entry (luc_userAttr luc);
          (userKeys, evs1) = userKeysLoop lib username (GetAttributeValues entry ''sshPublicKey'') [];
          (userDefaultRole, arns, evs2) =
             (if luc_enableServerRoles luc then
                (let r = GetAttributeValue entry (luc_defaultRoleAttr luc);
                     (as, evs) = memberOfLoop (luc_groups luc) (GetAttributeValues entry ''memberOf'') []
                 in (if r = [] then luc_defaultRole luc else r, as, evs))
              else (luc_defaultRole luc, [], []))
      in (luc\<lparr>luc_users := (luc_users luc)(username \<mapsto>
                  \<lparr>Username = username, SSHKeys = userKeys, ARNs = arns, DefaultRole = userDefaultRole\<rparr>)\<rparr>,
          evs1 @ evs2 @ [Debug ''Information on %s (re-)generated.'' [Str username]]))"

primrec userLoop ::
  "('k, 'sg) sshlib \<Rightarrow> Entry list \<Rightarrow> ('k, 'w) ldapUserCache \<Rightarrow> ('k, 'w) ldapUserCache \<times> event list" where
  "userLoop lib [] luc = (luc, [])"
| "userLoop lib (entry # rest) luc =
     (let (luc1, evs1) = userEntry lib entry luc;
          (luc2, evs2) = userLoop lib rest luc1
      in (luc2, evs1 @ evs2))"

text \<open>Lines 80 to 101: the group search, made only when server roles are enabled.\<close>

definition groupPhase ::
  "('k, 'w) ldapUserCache \<Rightarrow> error option \<times> ('k, 'w) ldapUserCache \<times> event list" where
  "groupPhase luc =
     (if luc_enableServerRoles luc then
        (case luc_Search luc (groupSearchRequest luc) of
           (Inl err, luc1) \<Rightarrow> (Some err, luc1, [])
         | (Inr entries, luc1) \<Rightarrow> (None, groupLoop entries luc1))
      else (None, luc, []))"

text \<open>Lines 78 to 159. The result is the error, the cache afterwards and the events emitted.\<close>

definition ldapUserCache_Update ::
  "('k, 'sg) sshlib \<Rightarrow> ('k, 'w) ldapUserCache \<Rightarrow>
   error option \<times> ('k, 'w) ldapUserCache \<times> event list" where
  "ldapUserCache_Update lib luc =
     (case groupPhase luc of
        (Some err, luc1, evs1) \<Rightarrow> (Some err, luc1, TimeNow # evs1)
      | (None, luc1, evs1) \<Rightarrow>
          (case luc_Search luc1 (searchRequest luc1) of
             (Inl err, luc2) \<Rightarrow> (Some err, luc2, TimeNow # evs1)
           | (Inr entries, luc2) \<Rightarrow>
               (case userLoop lib entries luc2 of
                  (luc3, evs2) \<Rightarrow>
                    (None, luc3,
                     TimeNow # evs1 @ evs2 @
                       [Debug ''LDAP information re-cached.'' [], Timing ''ldapCacheUpdate'']))))"

definition ldapUserCache_Users :: "('k, 'w) ldapUserCache \<Rightarrow> (string \<rightharpoonup> 'k User)" where
  "ldapUserCache_Users luc = luc_users luc"

text \<open>
  Lines 165 to 177. \<open>order\<close> is the order in which \<^verbatim>\<open>range luc.users\<close> visits the user names;
  the first user with a verifying key is returned. The \<^verbatim>\<open>username\<close> argument is not read.
\<close>

primrec scanUsers ::
  "('k, 'sg) sshlib \<Rightarrow> (string \<rightharpoonup> 'k User) \<Rightarrow> string list \<Rightarrow> string \<Rightarrow> 'sg \<Rightarrow> 'k User option" where
  "scanUsers lib users [] challenge sshSig = None"
| "scanUsers lib users (name # rest) challenge sshSig =
     (case users name of
        None \<Rightarrow> scanUsers lib users rest challenge sshSig
      | Some user \<Rightarrow>
          if keyVerifies lib user challenge sshSig then Some user
          else scanUsers lib users rest challenge sshSig)"

definition ldapUserCache_verify ::
  "('k, 'sg) sshlib \<Rightarrow> string list \<Rightarrow> ('k, 'w) ldapUserCache \<Rightarrow> string \<Rightarrow> string \<Rightarrow> 'sg \<Rightarrow>
   'k User option \<times> error option" where
  "ldapUserCache_verify lib order luc username challenge sshSig =
     (scanUsers lib (luc_users luc) order challenge sshSig, None)"

text \<open>
  Lines 179 to 196. \<open>order1\<close> and \<open>order2\<close> are the orders of the first scan and of the scan
  after the update.
\<close>

definition ldapUserCache_Authenticate ::
  "('k, 'sg) sshlib \<Rightarrow> string list \<Rightarrow> string list \<Rightarrow> ('k, 'w) ldapUserCache \<Rightarrow>
   string \<Rightarrow> string \<Rightarrow> 'sg \<Rightarrow>
   ('k User option \<times> error option) \<times> ('k, 'w) ldapUserCache \<times> event list" where
  "ldapUserCache_Authenticate lib order1 order2 luc username challenge sshSig =
     (case fst (ldapUserCache_verify lib order1 luc username challenge sshSig) of
        Some retUser \<Rightarrow> ((Some retUser, None), luc, [])
      | None \<Rightarrow>
          (case ldapUserCache_Update lib luc of
             (Some err, luc1, evs) \<Rightarrow>
               ((None, Some err), luc1,
                Debug ''Could not find %s in the LDAP cache; updating from the server.'' [Str username] #
                Counter ''ldapCacheMiss'' # evs)
           | (None, luc1, evs) \<Rightarrow>
               (ldapUserCache_verify lib order2 luc1 username challenge sshSig, luc1,
                Debug ''Could not find %s in the LDAP cache; updating from the server.'' [Str username] #
                Counter ''ldapCacheMiss'' # evs)))"

subsection \<open>The keys-file cache\<close>

text \<open>
  A value of type \<^verbatim>\<open>interface{}\<close> as the keys file gives it: a string, a list of such
  values, or anything else (\<^verbatim>\<open>nil\<close>, a number, a nested map). The two type assertions of the
  code succeed on the first two and fail on every other value, also on the \<^verbatim>\<open>nil\<close> that
  indexing a map at a missing name gives.
\<close>

datatype dyn = DString string | DList "dyn list" | DOther

definition assertString :: "dyn option \<Rightarrow> string option" where
  "assertString v = (case v of Some (DString s) \<Rightarrow> Some s | _ \<Rightarrow> None)"

definition assertList :: "dyn option \<Rightarrow> dyn list option" where
  "assertList v = (case v of Some (DList vs) \<Rightarrow> Some vs | _ \<Rightarrow> None)"

text \<open>
  \<^verbatim>\<open>KeysMap\<close> is declared outside this file; the code uses it as a map from key strings to
  maps from attribute names to \<^verbatim>\<open>interface{}\<close> values. The code only ranges over it, so it
  is the list of its pairs in the order in which that \<^verbatim>\<open>range\<close> visits them.
\<close>

type_synonym KeysMap = "(string \<times> (string \<rightharpoonup> dyn)) list"

text \<open>
  \<^verbatim>\<open>KeysFile\<close>: the state of the file reader and its methods \<^verbatim>\<open>Load\<close> and \<^verbatim>\<open>Keys\<close>.
  Its \<^verbatim>\<open>Search\<close> is never called by this file.
\<close>

record 'f KeysFile =
  kfState :: 'f
  Load :: "'f \<Rightarrow> error option \<times> 'f"
  Keys :: "'f \<Rightarrow> (error + KeysMap) \<times> 'f"

record ('k, 'f) keysFileUserCache =
  kfuc_users :: "string \<rightharpoonup> 'k User"
  kfuc_keysFile :: "'f KeysFile"
  kfuc_userAttr :: string
  kfuc_enableServerRoles :: bool
  kfuc_roleAttr :: string
  kfuc_defaultRole :: string
  kfuc_defaultRoleAttr :: string

text \<open>The calls \<^verbatim>\<open>kfuc.keysFile.Load()\<close> and \<^verbatim>\<open>kfuc.keysFile.Keys()\<close>.\<close>

definition kfuc_Load ::
  "('k, 'f) keysFileUserCache \<Rightarrow> error option \<times> ('k, 'f) keysFileUserCache" where
  "kfuc_Load kfuc =
     (case Load (kfuc_keysFile kfuc) (kfState (kfuc_keysFile kfuc)) of
        (err, f) \<Rightarrow> (err, kfuc\<lparr>kfuc_keysFile := (kfuc_keysFile kfuc)\<lparr>kfState := f\<rparr>\<rparr>))"

definition kfuc_Keys ::
  "('k, 'f) keysFileUserCache \<Rightarrow> (error + KeysMap) \<times> ('k, 'f) keysFileUserCache" where
  "kfuc_Keys kfuc =
     (case Keys (kfuc_keysFile kfuc) (kfState (kfuc_keysFile kfuc)) of
        (result, f) \<Rightarrow> (result, kfuc\<lparr>kfuc_keysFile := (kfuc_keysFile kfuc)\<lparr>kfState := f\<rparr>\<rparr>))"

text \<open>
  Lines 287 to 294: the roles of one record. A role that is not a string panics; a pair of
  user name and role already seen is passed over.
\<close>

primrec rolesLoop ::
  "string \<Rightarrow> dyn list \<Rightarrow> string list \<Rightarrow> (string \<times> string) set \<Rightarrow>
   (string list \<times> (string \<times> string) set) outcome" where
  "rolesLoop username [] arns seenRoles = Returns (arns, seenRoles)"
| "rolesLoop username (r # rest) arns seenRoles =
     (case assertString (Some r) of
        None \<Rightarrow> Panics
      | Some role \<Rightarrow>
          if (username, role) \<in> seenRoles then rolesLoop username rest arns seenRoles
          else rolesLoop username rest (arns @ [role]) (insert (username, role) seenRoles))"

text \<open>
  Lines 259 to 298: one record of the keys file, on the new user map and the set of seen
  roles. The user name is asserted to be a string with the one-value form, which panics;
  the default role with the two-value form, which does not. A key that does not parse is
  logged and the record left before anything is stored.
\<close>

definition keysStep ::
  "('k, 'sg) sshlib \<Rightarrow> ('k, 'f) keysFileUserCache \<Rightarrow> string \<times> (string \<rightharpoonup> dyn) \<Rightarrow>
   (string \<rightharpoonup> 'k User) \<times> (string \<times> string) set \<Rightarrow>
   ((string \<rightharpoonup> 'k User) \<times> (string \<times> string) set) outcome \<times> event list" where
  "keysStep lib kfuc rec st =
     (case rec of (key, userData) \<Rightarrow>
      case st of (users, seenRoles) \<Rightarrow>
      case assertString (userData (kfuc_userAttr kfuc)) of
        None \<Rightarrow> (Panics, [])
      | Some username \<Rightarrow>
          (let defaultRole =
                 (case assertString (userData (kfuc_defaultRoleAttr kfuc)) of
                    None \<Rightarrow> kfuc_defaultRole kfuc
                  | Some d \<Rightarrow> if d = [] then kfuc_defaultRole kfuc else d);
               user =
                 (case users username of
                    Some u \<Rightarrow> u
                  | None \<Rightarrow> \<lparr>Username = username, SSHKeys = [], ARNs = [], DefaultRole = defaultRole\<rparr>)
           in case parseKey lib key of
                None \<Rightarrow>
                  (Returns (users, seenRoles),
                   [Warning ''SSH key parsing for user %s failed (key was '%s')! This key will not be added into the keys file.''
                      [Str username, Str key]])
              | Some sshKey \<Rightarrow>
                  (let user1 = user\<lparr>SSHKeys := SSHKeys user @ [sshKey]\<rparr> in
                   if kfuc_enableServerRoles kfuc then
                     (case assertList (userData (kfuc_roleAttr kfuc)) of
                        None \<Rightarrow> (Panics, [])
                      | Some roles \<Rightarrow>
                          (case rolesLoop username roles (ARNs user1) seenRoles of
                             Panics \<Rightarrow> (Panics, [])
                           | Returns (arns, seenRoles1) \<Rightarrow>
                               (Returns (users(username \<mapsto> user1\<lparr>ARNs := arns\<rparr>), seenRoles1), [])))
                   else (Returns (users(username \<mapsto> user1), seenRoles), []))))"

primrec keysLoop ::
  "('k, 'sg) sshlib \<Rightarrow> ('k, 'f) keysFileUserCache \<Rightarrow> KeysMap \<Rightarrow>
   (string \<rightharpoonup> 'k User) \<times> (string \<times> string) set \<Rightarrow>
   ((string \<rightharpoonup> 'k User) \<times> (string \<times> string) set) outcome \<times> event list" where
  "keysLoop lib kfuc [] st = (Returns st, [])"
| "keysLoop lib kfuc (rec # rest) st =
     (case keysStep lib kfuc rec st of
        (Panics, evs1) \<Rightarrow> (Panics, evs1)
      | (Returns st1, evs1) \<Rightarrow>
          (case keysLoop lib kfuc rest st1 of (r, evs2) \<Rightarrow> (r, evs1 @ evs2)))"

text \<open>
  Lines 242 to 307. The new map and the set of seen roles start empty at every call; the
  cache's map is assigned once, after the loop.
\<close>

definition keysFileUserCache_Update ::
  "('k, 'sg) sshlib \<Rightarrow> ('k, 'f) keysFileUserCache \<Rightarrow>
   error option outcome \<times> ('k, 'f) keysFileUserCache \<times> event list" where
  "keysFileUserCache_Update lib kfuc =
     (case kfuc_Load kfuc of
        (Some err, kfuc1) \<Rightarrow> (Returns (Some err), kfuc1, [TimeNow])
      | (None, kfuc1) \<Rightarrow>
          (case kfuc_Keys kfuc1 of
             (Inl err, kfuc2) \<Rightarrow> (Returns (Some err), kfuc2, [TimeNow])
           | (Inr keys, kfuc2) \<Rightarrow>
               (case keysLoop lib kfuc2 keys (Map.empty, {}) of
                  (Panics, evs) \<Rightarrow> (Panics, kfuc2, TimeNow # evs)
                | (Returns (users, seenRoles), evs) \<Rightarrow>
                    (Returns None, kfuc2\<lparr>kfuc_users := users\<rparr>,
                     TimeNow # evs @
                       [Debug ''Keys file information re-cached.'' [],
                        Timing ''keysFileCacheUpdate'']))))"

definition keysFileUserCache_Users :: "('k, 'f) keysFileUserCache \<Rightarrow> (string \<rightharpoonup> 'k User)" where
  "keysFileUserCache_Users kfuc = kfuc_users kfuc"

text \<open>Lines 313 to 322, with the order of the \<^verbatim>\<open>range\<close> over the user map.\<close>

definition keysFileUserCache_verify ::
  "('k, 'sg) sshlib \<Rightarrow> string list \<Rightarrow> ('k, 'f) keysFileUserCache \<Rightarrow> string \<Rightarrow> 'sg \<Rightarrow>
   'k User option \<times> error option" where
  "keysFileUserCache_verify lib order kfuc challenge sshSig =
     (scanUsers lib (kfuc_users kfuc) order challenge sshSig, None)"

text \<open>Lines 324 to 339. A panic of the update is a panic of the call.\<close>

definition keysFileUserCache_Authenticate ::
  "('k, 'sg) sshlib \<Rightarrow> string list \<Rightarrow> string list \<Rightarrow> ('k, 'f) keysFileUserCache \<Rightarrow>
   string \<Rightarrow> string \<Rightarrow> 'sg \<Rightarrow>
   ('k User option \<times> error option) outcome \<times> ('k, 'f) keysFileUserCache \<times> event list" where
  "keysFileUserCache_Authenticate lib order1 order2 kfuc username challenge sshSig =
     (case fst (keysFileUserCache_verify lib order1 kfuc challenge sshSig) of
        Some user \<Rightarrow> (Returns (Some user, None), kfuc, [])
      | None \<Rightarrow>
          (case keysFileUserCache_Update lib kfuc of
             (Panics, kfuc1, evs) \<Rightarrow>
               (Panics, kfuc1,
                Debug ''Could not find %s in the keys file cache; updating from the file.'' [Str username] #
                Counter ''keysFileCacheMiss'' # evs)
           | (Returns (Some err), kfuc1, evs) \<Rightarrow>
               (Returns (None, Some err), kfuc1,
                Debug ''Could not find %s in the keys file cache; updating from the file.'' [Str username] #
                Counter ''keysFileCacheMiss'' # evs)
           | (Returns None, kfuc1, evs) \<Rightarrow>
               (Returns (keysFileUserCache_verify lib order2 kfuc1 challenge sshSig), kfuc1,
                Debug ''Could not find %s in the keys file cache; updating from the file.'' [Str username] #
                Counter ''keysFileCacheMiss'' # evs)))"

subsection \<open>Notions used to state the properties\<close>

text \<open>
  Every \<^verbatim>\<open>Update\<close> of either cache calls \<^verbatim>\<open>time.Now()\<close> once, as its first statement, and
  nothing else in the file calls it (the \<^verbatim>\<open>time.Since\<close> that ends a successful update is part
  of the \<open>Timing\<close> event): the number of \<open>TimeNow\<close> events in a list of events is the number
  of calls of \<^verbatim>\<open>Update\<close> made while it was emitted.
\<close>

definition updateCalls :: "event list \<Rightarrow> nat" where
  "updateCalls evs = count_list evs TimeNow"

text \<open>
  The user that one entry of the user search describes, in the words of the specification
  (4.2, steps 3 to 5): the keys are the values of \<open>sshPublicKey\<close> that parse, in their
  order; with role support the default role is the entry's own unless that is empty, and
  the ARNs are those of the groups that \<open>memberOf\<close> names, a group that the group map does
  not hold giving none.
\<close>

definition groupARNs :: "(string \<rightharpoonup> string list) \<Rightarrow> string \<Rightarrow> string list" where
  "groupARNs groups groupDN = (case groups groupDN of None \<Rightarrow> [] | Some as \<Rightarrow> as)"

definition ldapUserOf :: "('k, 'sg) sshlib \<Rightarrow> ('k, 'w) ldapUserCache \<Rightarrow> Entry \<Rightarrow> 'k User" where
  "ldapUserOf lib luc entry =
     \<lparr>Username = GetAttributeValue entry (luc_userAttr luc),
      SSHKeys = List.map_filter (parseKey lib) (GetAttributeValues entry ''sshPublicKey''),
      ARNs = (if luc_enableServerRoles luc
              then concat (map (groupARNs (luc_groups luc)) (GetAttributeValues entry ''memberOf''))
              else []),
      DefaultRole = (if luc_enableServerRoles luc \<and> GetAttributeValue entry (luc_defaultRoleAttr luc) \<noteq> []
                     then GetAttributeValue entry (luc_defaultRoleAttr luc)
                     else luc_defaultRole luc)\<rparr>"

text \<open>
  The entries that the user search of an \<^verbatim>\<open>Update\<close> of \<open>luc\<close> answers with, when the group
  search (if it is made) and the user search both succeed; and the last of these entries
  that carries a given user name.
\<close>

definition ldapUserEntries :: "('k, 'w) ldapUserCache \<Rightarrow> Entry list option" where
  "ldapUserEntries luc =
     (case groupPhase luc of
        (Some err, luc1, evs) \<Rightarrow> None
      | (None, luc1, evs) \<Rightarrow>
          (case fst (luc_Search luc1 (searchRequest luc1)) of
             Inl err \<Rightarrow> None
           | Inr entries \<Rightarrow> Some entries))"

definition lastEntryOf :: "('k, 'w) ldapUserCache \<Rightarrow> string \<Rightarrow> Entry list \<Rightarrow> Entry option" where
  "lastEntryOf luc username entries =
     List.find (\<lambda>entry. GetAttributeValue entry (luc_userAttr luc) = username) (rev entries)"

definition keyWarningLDAP :: "string \<Rightarrow> string \<Rightarrow> event" where
  "keyWarningLDAP username eachKey =
     Warning ''SSH key parsing for user %s failed (key was '%s')! This key will not be added into LDAP.''
       [Str username, Str eachKey]"

text \<open>
  The user map after the entries of a user search have been written into the map \<open>m\<close>, one
  after the other.
\<close>

primrec patchUsers ::
  "('k, 'sg) sshlib \<Rightarrow> ('k, 'w) ldapUserCache \<Rightarrow> Entry list \<Rightarrow> (string \<rightharpoonup> 'k User) \<Rightarrow> (string \<rightharpoonup> 'k User)" where
  "patchUsers lib luc [] m = m"
| "patchUsers lib luc (e # es) m =
     patchUsers lib luc es (m(GetAttributeValue e (luc_userAttr luc) \<mapsto> ldapUserOf lib luc e))"


text \<open>
  A record of the keys file, read as the specification reads it (4.3, steps 3 to 5): its
  user name, its default role (the cache's own when the record has none or an empty one),
  its roles, and whether it is a record of a given user with a key that parses.
\<close>

definition recName :: "('k, 'f) keysFileUserCache \<Rightarrow> (string \<rightharpoonup> dyn) \<Rightarrow> string option" where
  "recName kfuc userData = assertString (userData (kfuc_userAttr kfuc))"

definition recDefaultRole :: "('k, 'f) keysFileUserCache \<Rightarrow> (string \<rightharpoonup> dyn) \<Rightarrow> string" where
  "recDefaultRole kfuc userData =
     (case assertString (userData (kfuc_defaultRoleAttr kfuc)) of
        None \<Rightarrow> kfuc_defaultRole kfuc
      | Some d \<Rightarrow> if d = [] then kfuc_defaultRole kfuc else d)"

definition roleStrings :: "dyn list \<Rightarrow> string list" where
  "roleStrings roles = List.map_filter (\<lambda>r. assertString (Some r)) roles"

definition recRoles :: "('k, 'f) keysFileUserCache \<Rightarrow> (string \<rightharpoonup> dyn) \<Rightarrow> string list" where
  "recRoles kfuc userData =
     (case assertList (userData (kfuc_roleAttr kfuc)) of
        None \<Rightarrow> []
      | Some roles \<Rightarrow> roleStrings roles)"

definition usable ::
  "('k, 'sg) sshlib \<Rightarrow> ('k, 'f) keysFileUserCache \<Rightarrow> string \<Rightarrow> string \<times> (string \<rightharpoonup> dyn) \<Rightarrow> bool" where
  "usable lib kfuc username rec \<longleftrightarrow>
     recName kfuc (snd rec) = Some username \<and> parseKey lib (fst rec) \<noteq> None"

text \<open>
  The records on which no type assertion of lines 259 to 294 fails: the user name is a
  string and, when roles are read (role support is on and the key parses), the roles are
  a list of strings.
\<close>

definition keysWellTyped ::
  "('k, 'sg) sshlib \<Rightarrow> ('k, 'f) keysFileUserCache \<Rightarrow> string \<times> (string \<rightharpoonup> dyn) \<Rightarrow> bool" where
  "keysWellTyped lib kfuc rec \<longleftrightarrow>
     recName kfuc (snd rec) \<noteq> None \<and>
     (kfuc_enableServerRoles kfuc \<and> parseKey lib (fst rec) \<noteq> None \<longrightarrow>
        (case assertList (snd rec (kfuc_roleAttr kfuc)) of
           None \<Rightarrow> False
         | Some roles \<Rightarrow> list_all (\<lambda>r. assertString (Some r) \<noteq> None) roles))"

text \<open>The records that \<^verbatim>\<open>Keys()\<close> gives to an \<^verbatim>\<open>Update\<close> of \<open>kfuc\<close>, when \<^verbatim>\<open>Load()\<close> and \<^verbatim>\<open>Keys()\<close> succeed.\<close>

definition keysFileRecords :: "('k, 'f) keysFileUserCache \<Rightarrow> KeysMap option" where
  "keysFileRecords kfuc =
     (case kfuc_Load kfuc of
        (Some err, kfuc1) \<Rightarrow> None
      | (None, kfuc1) \<Rightarrow>
          (case fst (kfuc_Keys kfuc1) of
             Inl err \<Rightarrow> None
           | Inr keys \<Rightarrow> Some keys))"

definition keyWarningFile :: "string \<Rightarrow> string \<Rightarrow> event" where
  "keyWarningFile username key =
     Warning ''SSH key parsing for user %s failed (key was '%s')! This key will not be added into the keys file.''
       [Str username, Str key]"

text \<open>The keys and the ARNs that a user map holds for a name, none when it holds no such user.\<close>

definition userKeysIn :: "(string \<rightharpoonup> 'k User) \<Rightarrow> string \<Rightarrow> 'k list" where
  "userKeysIn m username = (case m username of None \<Rightarrow> [] | Some user \<Rightarrow> SSHKeys user)"

definition userARNsIn :: "(string \<rightharpoonup> 'k User) \<Rightarrow> string \<Rightarrow> string set" where
  "userARNsIn m username = (case m username of None \<Rightarrow> {} | Some user \<Rightarrow> set (ARNs user))"

text \<open>
  What holds of the new user map and the set of seen roles between two records: a pair is
  seen exactly when the user of that name has the role, and no user has a role twice.
\<close>

definition seenInv :: "(string \<rightharpoonup> 'k User) \<Rightarrow> (string \<times> string) set \<Rightarrow> bool" where
  "seenInv users seenRoles \<longleftrightarrow>
     (\<forall>u r. (u, r) \<in> seenRoles \<longleftrightarrow> r \<in> userARNsIn users u) \<and>
     (\<forall>u user. users u = Some user \<longrightarrow> distinct (ARNs user))"

text \<open>The key that a record adds to the user of a given name: none when the record is of another user or its key does not parse.\<close>

definition recKey ::
  "('k, 'sg) sshlib \<Rightarrow> ('k, 'f) keysFileUserCache \<Rightarrow> string \<Rightarrow> string \<times> (string \<rightharpoonup> dyn) \<Rightarrow> 'k option" where
  "recKey lib kfuc username rec =
     (if recName kfuc (snd rec) = Some username then parseKey lib (fst rec) else None)"

subsection \<open>Concrete inputs\<close>

text \<open>
  A small key library for the examples: a key is its own text; raw key material starts
  with \<open>AAAA\<close>, an authorized-keys line with \<open>ssh-rsa\<close> and a blank; a signature is the
  pair of the key and the challenge it signs.
\<close>

definition ex_lib :: "(string, string \<times> string) sshlib" where
  "ex_lib =
     \<lparr>DecodeString = (\<lambda>s. s),
      ParsePublicKey = (\<lambda>b. if take 4 b = ''AAAA'' then Some b else None),
      ParseAuthorizedKey = (\<lambda>s. if take 8 s = ''ssh-rsa '' then Some (drop 8 s) else None),
      Verify = (\<lambda>key challenge sshSig. sshSig = (key, challenge))\<rparr>"

definition ex_user :: "string \<Rightarrow> string list \<Rightarrow> string User" where
  "ex_user name keys = \<lparr>Username = name, SSHKeys = keys, ARNs = [], DefaultRole = ''dflt''\<rparr>"

definition ex_entry :: "string \<Rightarrow> string list \<Rightarrow> string list \<Rightarrow> Entry" where
  "ex_entry name keys groups =
     \<lparr>DN = ''cn='' @ name,
      Attributes = [(''cn'', [name]), (''sshPublicKey'', keys), (''memberOf'', groups)]\<rparr>"

definition ex_group :: "string \<Rightarrow> string list \<Rightarrow> Entry" where
  "ex_group dn arns = \<lparr>DN = dn, Attributes = [(''roleAttr'', arns)]\<rparr>"

text \<open>A server that answers the group search with \<open>gs\<close> and the user search with \<open>es\<close>, and one that is down.\<close>

definition ex_server :: "Entry list \<Rightarrow> Entry list \<Rightarrow> unit LDAPImplementation" where
  "ex_server gs es =
     \<lparr>srvState = (),
      Search = (\<lambda>w request. (if reqFilter request = ''(sshPublicKey=*)'' then Inr es else Inr gs, w))\<rparr>"

definition ex_server_down :: "unit LDAPImplementation" where
  "ex_server_down = \<lparr>srvState = (), Search = (\<lambda>w request. (Inl (Error ''down''), w))\<rparr>"

text \<open>A server that answers the group search with \<open>gs\<close> and fails on the user search.\<close>

definition ex_server_no_users :: "Entry list \<Rightarrow> unit LDAPImplementation" where
  "ex_server_no_users gs =
     \<lparr>srvState = (),
      Search = (\<lambda>w request.
        (if reqFilter request = ''(sshPublicKey=*)'' then Inl (Error ''timeout'') else Inr gs, w))\<rparr>"

definition ex_luc ::
  "(string \<rightharpoonup> string User) \<Rightarrow> unit LDAPImplementation \<Rightarrow> (string, unit) ldapUserCache" where
  "ex_luc us srv =
     \<lparr>luc_users = us, luc_groups = Map.empty, luc_server = srv,
      luc_userAttr = ''cn'', luc_baseDN = ''dc=example'', luc_enableServerRoles = True,
      luc_roleAttribute = ''roleAttr'', luc_defaultRole = ''dflt'',
      luc_defaultRoleAttr = ''defaultRole''\<rparr>"

text \<open>A keys file that holds the records \<open>recs\<close>, and one that cannot be read.\<close>

definition ex_keysFile :: "KeysMap \<Rightarrow> unit KeysFile" where
  "ex_keysFile recs = \<lparr>kfState = (), Load = (\<lambda>f. (None, f)), Keys = (\<lambda>f. (Inr recs, f))\<rparr>"

definition ex_keysFile_unreadable :: "unit KeysFile" where
  "ex_keysFile_unreadable =
     \<lparr>kfState = (), Load = (\<lambda>f. (Some (Error ''unreadable''), f)), Keys = (\<lambda>f. (Inr [], f))\<rparr>"

definition ex_kfuc ::
  "(string \<rightharpoonup> string User) \<Rightarrow> unit KeysFile \<Rightarrow> (string, unit) keysFileUserCache" where
  "ex_kfuc us kf =
     \<lparr>kfuc_users = us, kfuc_keysFile = kf, kfuc_userAttr = ''user'',
      kfuc_enableServerRoles = True, kfuc_roleAttr = ''roles'', kfuc_defaultRole = ''dflt'',
      kfuc_defaultRoleAttr = ''defaultRole''\<rparr>"

definition ex_rec :: "string \<Rightarrow> string \<Rightarrow> string \<Rightarrow> string list \<Rightarrow> string \<times> (string \<rightharpoonup> dyn)" where
  "ex_rec key name role roles =
     (key, [''user'' \<mapsto> DString name, ''defaultRole'' \<mapsto> DString role,
            ''roles'' \<mapsto> DList (map DString roles)])"

lemmas ex_defs =
  ex_lib_def ex_user_def ex_entry_def ex_group_def ex_server_def ex_server_down_def
  ex_server_no_users_def ex_luc_def
  ex_keysFile_def ex_keysFile_unreadable_def ex_kfuc_def ex_rec_def

lemmas model_defs =
  parseKey_def keyVerifies_def GetAttributeValues_def GetAttributeValue_def luc_Search_def
  groupSearchRequest_def searchRequest_def userEntry_def groupPhase_def ldapUserCache_Update_def
  ldapUserCache_Users_def ldapUserCache_verify_def ldapUserCache_Authenticate_def
  assertString_def assertList_def kfuc_Load_def kfuc_Keys_def keysStep_def
  keysFileUserCache_Update_def keysFileUserCache_Users_def keysFileUserCache_verify_def
  keysFileUserCache_Authenticate_def Let_def

section \<open>Properties\<close>

subsection \<open>What the searches and the iterations leave alone\<close>

lemma updateCalls_simps [simp]:
  "updateCalls [] = 0"
  "updateCalls (e # evs) = (if e = TimeNow then Suc (updateCalls evs) else updateCalls evs)"
  "updateCalls (xs @ ys) = updateCalls xs + updateCalls ys"
  by (induction xs) (simp_all add: updateCalls_def)

lemma luc_Search_users [simp]: "luc_users (snd (luc_Search luc request)) = luc_users luc"
  by (simp add: luc_Search_def case_prod_beta)

lemma groupLoop_users [simp]: "luc_users (fst (groupLoop es luc)) = luc_users luc"
  by (induction es arbitrary: luc) (simp_all add: Let_def case_prod_beta)

lemma groupLoop_calls [simp]: "updateCalls (snd (groupLoop es luc)) = 0"
  by (induction es arbitrary: luc) (simp_all add: Let_def case_prod_beta)

lemma userKeysLoop_calls [simp]: "updateCalls (snd (userKeysLoop lib u vs acc)) = 0"
  by (induction vs arbitrary: acc) (simp_all add: Let_def case_prod_beta split: option.split)

lemma memberOfLoop_calls [simp]: "updateCalls (snd (memberOfLoop G gs acc)) = 0"
  by (induction gs arbitrary: acc) (simp_all add: Let_def case_prod_beta)

lemma userEntry_calls [simp]: "updateCalls (snd (userEntry lib e luc)) = 0"
  by (simp add: userEntry_def Let_def case_prod_beta)

lemma userLoop_calls [simp]: "updateCalls (snd (userLoop lib es luc)) = 0"
  by (induction es arbitrary: luc) (simp_all add: Let_def case_prod_beta)

lemma groupPhase_calls [simp]: "updateCalls (snd (snd (groupPhase luc))) = 0"
  by (simp add: groupPhase_def case_prod_beta split: sum.split)

lemma groupPhase_users [simp]: "luc_users (fst (snd (groupPhase luc))) = luc_users luc"
  by (simp add: groupPhase_def case_prod_beta split: sum.split)

lemma ldapUserCache_Update_calls: "updateCalls (snd (snd (ldapUserCache_Update lib luc))) = 1"
  by (simp add: ldapUserCache_Update_def case_prod_beta split: option.split sum.split)

lemma ldapUserCache_Update_error_users:
  "fst (ldapUserCache_Update lib luc) = Some err \<Longrightarrow>
   luc_users (fst (snd (ldapUserCache_Update lib luc))) = luc_users luc"
  by (simp add: ldapUserCache_Update_def case_prod_beta split: option.splits sum.splits)

lemma kfuc_Load_users [simp]: "kfuc_users (snd (kfuc_Load kfuc)) = kfuc_users kfuc"
  by (simp add: kfuc_Load_def case_prod_beta)

lemma kfuc_Keys_users [simp]: "kfuc_users (snd (kfuc_Keys kfuc)) = kfuc_users kfuc"
  by (simp add: kfuc_Keys_def case_prod_beta)

lemma keysStep_calls [simp]: "updateCalls (snd (keysStep lib kfuc rec st)) = 0"
  by (simp add: keysStep_def Let_def case_prod_beta split: option.split outcome.split)

lemma keysLoop_calls [simp]: "updateCalls (snd (keysLoop lib kfuc recs st)) = 0"
  by (induction recs arbitrary: st) (simp_all add: case_prod_beta split: outcome.split)

lemma keysFileUserCache_Update_calls:
  "updateCalls (snd (snd (keysFileUserCache_Update lib kfuc))) = 1"
  by (simp add: keysFileUserCache_Update_def case_prod_beta split: option.split sum.split outcome.split)

lemma keysFileUserCache_Update_failed_users:
  "fst (keysFileUserCache_Update lib kfuc) \<noteq> Returns None \<Longrightarrow>
   kfuc_users (fst (snd (keysFileUserCache_Update lib kfuc))) = kfuc_users kfuc"
  by (simp add: keysFileUserCache_Update_def case_prod_beta split: option.splits sum.splits outcome.splits)

lemma scanUsers_no_key:
  "\<forall>user\<in>ran users. \<not> keyVerifies lib user challenge sshSig \<Longrightarrow>
   scanUsers lib users order challenge sshSig = None"
  by (induction order) (auto simp: ran_def split: option.split)


subsection \<open>What an update of the LDAP cache stores\<close>

lemma userKeysLoop_keys:
  "fst (userKeysLoop lib username vs userKeys) = userKeys @ List.map_filter (parseKey lib) vs"
  by (induction vs arbitrary: userKeys)
     (simp_all add: case_prod_beta split: option.split)

lemma userKeysLoop_warns:
  "v \<in> set vs \<Longrightarrow> parseKey lib v = None \<Longrightarrow>
   keyWarningLDAP username v \<in> set (snd (userKeysLoop lib username vs userKeys))"
  by (induction vs arbitrary: userKeys)
     (auto simp: keyWarningLDAP_def case_prod_beta split: option.split)

lemma memberOfLoop_arns:
  "fst (memberOfLoop groups gs arns) = arns @ concat (map (groupARNs groups) gs)"
  by (induction gs arbitrary: arns) (simp_all add: groupARNs_def case_prod_beta)

lemma ldapUserOf_users [simp]: "ldapUserOf lib (luc\<lparr>luc_users := m\<rparr>) e = ldapUserOf lib luc e"
  by (simp add: ldapUserOf_def)

lemma userEntry_fst:
  "fst (userEntry lib e luc) =
     luc\<lparr>luc_users := (luc_users luc)(GetAttributeValue e (luc_userAttr luc) \<mapsto> ldapUserOf lib luc e)\<rparr>"
  by (simp add: userEntry_def ldapUserOf_def Let_def case_prod_beta userKeysLoop_keys memberOfLoop_arns)

lemma userEntry_warns:
  "v \<in> set (GetAttributeValues e ''sshPublicKey'') \<Longrightarrow> parseKey lib v = None \<Longrightarrow>
   keyWarningLDAP (GetAttributeValue e (luc_userAttr luc)) v \<in> set (snd (userEntry lib e luc))"
  by (simp add: userEntry_def Let_def case_prod_beta userKeysLoop_warns)

lemma patchUsers_users [simp]: "patchUsers lib (luc\<lparr>luc_users := m'\<rparr>) es m = patchUsers lib luc es m"
  by (induction es arbitrary: m) simp_all

lemma userLoop_fst:
  "fst (userLoop lib es luc) = luc\<lparr>luc_users := patchUsers lib luc es (luc_users luc)\<rparr>"
  by (induction es arbitrary: luc) (simp_all add: case_prod_beta userEntry_fst)

lemma find_snoc:
  "List.find P (xs @ [x]) = (case List.find P xs of None \<Rightarrow> (if P x then Some x else None) | Some y \<Rightarrow> Some y)"
  by (induction xs) simp_all

lemma patchUsers_apply:
  "patchUsers lib luc es m u =
     (case lastEntryOf luc u es of None \<Rightarrow> m u | Some e \<Rightarrow> Some (ldapUserOf lib luc e))"
  by (induction es arbitrary: m) (auto simp: lastEntryOf_def find_snoc split: option.split)

lemma userLoop_warns:
  "e \<in> set es \<Longrightarrow> v \<in> set (GetAttributeValues e ''sshPublicKey'') \<Longrightarrow> parseKey lib v = None \<Longrightarrow>
   keyWarningLDAP (GetAttributeValue e (luc_userAttr luc)) v \<in> set (snd (userLoop lib es luc))"
proof (induction es arbitrary: luc)
  case Nil
  then show ?case by simp
next
  case (Cons a es)
  have attr: "luc_userAttr (fst (userEntry lib a luc)) = luc_userAttr luc"
    by (simp add: userEntry_fst)
  show ?case
  proof (cases "e = a")
    case True
    with Cons.prems show ?thesis by (simp add: case_prod_beta userEntry_warns)
  next
    case False
    with Cons.prems have "e \<in> set es" by simp
    from Cons.IH [OF this Cons.prems(2) Cons.prems(3), of "fst (userEntry lib a luc)"]
    show ?thesis by (simp add: case_prod_beta attr)
  qed
qed

lemma groupLoop_server [simp]: "luc_server (fst (groupLoop es luc)) = luc_server luc"
  by (induction es arbitrary: luc) (simp_all add: Let_def case_prod_beta)

lemma groupLoop_userAttr [simp]: "luc_userAttr (fst (groupLoop es luc)) = luc_userAttr luc"
  by (induction es arbitrary: luc) (simp_all add: Let_def case_prod_beta)

lemma groupLoop_baseDN [simp]: "luc_baseDN (fst (groupLoop es luc)) = luc_baseDN luc"
  by (induction es arbitrary: luc) (simp_all add: Let_def case_prod_beta)

lemma groupLoop_enableServerRoles [simp]: "luc_enableServerRoles (fst (groupLoop es luc)) = luc_enableServerRoles luc"
  by (induction es arbitrary: luc) (simp_all add: Let_def case_prod_beta)

lemma groupLoop_roleAttribute [simp]: "luc_roleAttribute (fst (groupLoop es luc)) = luc_roleAttribute luc"
  by (induction es arbitrary: luc) (simp_all add: Let_def case_prod_beta)

lemma groupLoop_defaultRole [simp]: "luc_defaultRole (fst (groupLoop es luc)) = luc_defaultRole luc"
  by (induction es arbitrary: luc) (simp_all add: Let_def case_prod_beta)

lemma groupLoop_defaultRoleAttr [simp]: "luc_defaultRoleAttr (fst (groupLoop es luc)) = luc_defaultRoleAttr luc"
  by (induction es arbitrary: luc) (simp_all add: Let_def case_prod_beta)

lemma luc_Search_config [simp]:
  "luc_userAttr (snd (luc_Search luc request)) = luc_userAttr luc"
  "luc_groups (snd (luc_Search luc request)) = luc_groups luc"
  "luc_enableServerRoles (snd (luc_Search luc request)) = luc_enableServerRoles luc"
  by (simp_all add: luc_Search_def case_prod_beta)

lemma groupPhase_config [simp]:
  "luc_userAttr (fst (snd (groupPhase luc))) = luc_userAttr luc"
  "luc_enableServerRoles (fst (snd (groupPhase luc))) = luc_enableServerRoles luc"
  by (simp_all add: groupPhase_def case_prod_beta split: sum.split)

lemma lastEntryOf_cong: "luc_userAttr l = luc_userAttr luc \<Longrightarrow> lastEntryOf l u es = lastEntryOf luc u es"
  by (simp add: lastEntryOf_def)

lemma ldapUserCache_Update_ok:
  assumes "ldapUserEntries luc = Some es"
  shows "fst (ldapUserCache_Update lib luc) = None"
    and "luc_users (fst (snd (ldapUserCache_Update lib luc))) u =
           (case lastEntryOf luc u es of
              None \<Rightarrow> luc_users luc u
            | Some e \<Rightarrow> Some (ldapUserOf lib (fst (snd (ldapUserCache_Update lib luc))) e))"
    and "e \<in> set es \<Longrightarrow> v \<in> set (GetAttributeValues e ''sshPublicKey'') \<Longrightarrow> parseKey lib v = None \<Longrightarrow>
         keyWarningLDAP (GetAttributeValue e (luc_userAttr luc)) v
           \<in> set (snd (snd (ldapUserCache_Update lib luc)))"
proof -
  obtain r luc1 evs1 where g: "groupPhase luc = (r, luc1, evs1)"
    by (cases "groupPhase luc")
  obtain q luc2 where s: "luc_Search luc1 (searchRequest luc1) = (q, luc2)"
    by (cases "luc_Search luc1 (searchRequest luc1)")
  from assms g s have r: "r = None" and q: "q = Inr es"
    by (auto simp: ldapUserEntries_def split: option.splits sum.splits)
  have attr1: "luc_userAttr luc1 = luc_userAttr luc" and users1: "luc_users luc1 = luc_users luc"
    using groupPhase_config(1) [of luc] groupPhase_users [of luc] g by simp_all
  have attr2: "luc_userAttr luc2 = luc_userAttr luc" and users2: "luc_users luc2 = luc_users luc"
    using luc_Search_config(1) [of luc1 "searchRequest luc1"]
          luc_Search_users [of luc1 "searchRequest luc1"] s attr1 users1 by simp_all
  have upd: "ldapUserCache_Update lib luc =
               (None, fst (userLoop lib es luc2),
                TimeNow # evs1 @ snd (userLoop lib es luc2) @
                  [Debug ''LDAP information re-cached.'' [], Timing ''ldapCacheUpdate''])"
    using g s r q by (simp add: ldapUserCache_Update_def case_prod_beta)
  show "fst (ldapUserCache_Update lib luc) = None"
    by (simp add: upd)
  show "luc_users (fst (snd (ldapUserCache_Update lib luc))) u =
           (case lastEntryOf luc u es of
              None \<Rightarrow> luc_users luc u
            | Some e \<Rightarrow> Some (ldapUserOf lib (fst (snd (ldapUserCache_Update lib luc))) e))"
  proof -
    have "\<And>e. ldapUserOf lib (fst (snd (ldapUserCache_Update lib luc))) e = ldapUserOf lib luc2 e"
      by (simp add: upd userLoop_fst)
    then show ?thesis
      by (simp add: upd userLoop_fst patchUsers_apply users2 lastEntryOf_cong [OF attr2]
            split: option.split)
  qed
  show "keyWarningLDAP (GetAttributeValue e (luc_userAttr luc)) v
           \<in> set (snd (snd (ldapUserCache_Update lib luc)))"
    if "e \<in> set es" "v \<in> set (GetAttributeValues e ''sshPublicKey'')" "parseKey lib v = None"
    using userLoop_warns [OF that, of luc2] by (simp add: upd attr2)
qed

lemma ex_ldapUserEntries [simp]: "ldapUserEntries (ex_luc us (ex_server gs es)) = Some es"
  by (simp add: ldapUserEntries_def groupPhase_def luc_Search_def groupSearchRequest_def
        searchRequest_def ex_luc_def ex_server_def case_prod_beta)

lemma ldapUserCache_Update_enableServerRoles:
  "luc_enableServerRoles (fst (snd (ldapUserCache_Update lib luc))) = luc_enableServerRoles luc"
  by (simp add: ldapUserCache_Update_def case_prod_beta userLoop_fst split: option.split sum.split)

subsection \<open>What an update of the keys-file cache stores\<close>

lemma rolesLoop_effect:
  assumes "list_all (\<lambda>r. assertString (Some r) \<noteq> None) roles"
    and "distinct arns"
    and "\<forall>r. (n, r) \<in> seen \<longleftrightarrow> r \<in> set arns"
  shows "\<exists>arns' seen'. rolesLoop n roles arns seen = Returns (arns', seen') \<and>
           distinct arns' \<and> set arns' = set arns \<union> set (roleStrings roles) \<and>
           seen' = seen \<union> {n} \<times> set (roleStrings roles)"
  using assms
proof (induction roles arbitrary: arns seen)
  case Nil
  then show ?case by (simp add: roleStrings_def)
next
  case (Cons r roles)
  from Cons.prems(1) obtain role where r: "assertString (Some r) = Some role"
    and rest: "list_all (\<lambda>r. assertString (Some r) \<noteq> None) roles"
    by auto
  have rs: "roleStrings (r # roles) = role # roleStrings roles"
    using r by (simp add: roleStrings_def)
  show ?case
  proof (cases "(n, role) \<in> seen")
    case True
    then have "role \<in> set arns" using Cons.prems(3) by simp
    with Cons.IH [OF rest Cons.prems(2) Cons.prems(3)] True r rs show ?thesis
      by auto
  next
    case False
    then have notin: "role \<notin> set arns" using Cons.prems(3) by simp
    have d: "distinct (arns @ [role])" using Cons.prems(2) notin by simp
    have i: "\<forall>x. (n, x) \<in> insert (n, role) seen \<longleftrightarrow> x \<in> set (arns @ [role])"
      using Cons.prems(3) by auto
    from Cons.IH [OF rest d i] False r rs show ?thesis
      by auto
  qed
qed

lemma keysStep_skip:
  assumes "recName kfuc ud = Some n" and "parseKey lib key = None"
  shows "keysStep lib kfuc (key, ud) (users, seen) = (Returns (users, seen), [keyWarningFile n key])"
  using assms by (simp add: keysStep_def recName_def keyWarningFile_def Let_def)

lemma keysStep_store:
  assumes n: "recName kfuc ud = Some n"
    and k: "parseKey lib key = Some k"
    and wt: "keysWellTyped lib kfuc (key, ud)"
    and inv: "seenInv users seen"
  shows "\<exists>x' seen'.
           keysStep lib kfuc (key, ud) (users, seen) = (Returns (users(n \<mapsto> x'), seen'), []) \<and>
           seenInv (users(n \<mapsto> x')) seen' \<and>
           SSHKeys x' = userKeysIn users n @ [k] \<and>
           set (ARNs x') = userARNsIn users n \<union>
              (if kfuc_enableServerRoles kfuc then set (recRoles kfuc ud) else {}) \<and>
           DefaultRole x' = (case users n of Some x \<Rightarrow> DefaultRole x | None \<Rightarrow> recDefaultRole kfuc ud) \<and>
           Username x' = (case users n of Some x \<Rightarrow> Username x | None \<Rightarrow> n)"
proof -
  define base where "base = (case users n of Some u \<Rightarrow> u
     | None \<Rightarrow> \<lparr>Username = n, SSHKeys = [], ARNs = [], DefaultRole = recDefaultRole kfuc ud\<rparr>)"
  have bk: "SSHKeys base = userKeysIn users n"
    by (simp add: base_def userKeysIn_def split: option.split)
  have ba: "set (ARNs base) = userARNsIn users n"
    by (simp add: base_def userARNsIn_def split: option.split)
  have bd: "distinct (ARNs base)"
    using inv by (auto simp: base_def seenInv_def split: option.split)
  have bs: "\<forall>r. (n, r) \<in> seen \<longleftrightarrow> r \<in> set (ARNs base)"
    using inv ba by (simp add: seenInv_def)
  have br: "DefaultRole base = (case users n of Some x \<Rightarrow> DefaultRole x | None \<Rightarrow> recDefaultRole kfuc ud)"
    by (simp add: base_def split: option.split)
  have bu: "Username base = (case users n of Some x \<Rightarrow> Username x | None \<Rightarrow> n)"
    by (simp add: base_def split: option.split)
  have others: "\<And>x' S. set (ARNs x') = set (ARNs base) \<union> S \<Longrightarrow> distinct (ARNs x') \<Longrightarrow>
                  seenInv (users(n \<mapsto> x')) (seen \<union> {n} \<times> S)"
    using inv ba by (auto simp: seenInv_def userARNsIn_def split: if_splits)
  show ?thesis
  proof (cases "kfuc_enableServerRoles kfuc")
    case False
    let ?x = "base\<lparr>SSHKeys := SSHKeys base @ [k]\<rparr>"
    have step: "keysStep lib kfuc (key, ud) (users, seen) = (Returns (users(n \<mapsto> ?x), seen), [])"
      using n k False
      by (simp add: keysStep_def recName_def recDefaultRole_def base_def Let_def cong: option.case_cong)
    have "seenInv (users(n \<mapsto> ?x)) (seen \<union> {n} \<times> {})"
      by (rule others) (simp_all add: bd)
    then have "seenInv (users(n \<mapsto> ?x)) seen" by simp
    with step False bk ba br bu show ?thesis by auto
  next
    case True
    from wt True k obtain roles where roles: "assertList (ud (kfuc_roleAttr kfuc)) = Some roles"
      and typed: "list_all (\<lambda>r. assertString (Some r) \<noteq> None) roles"
      by (auto simp: keysWellTyped_def split: option.splits)
    have "ARNs (base\<lparr>SSHKeys := SSHKeys base @ [k]\<rparr>) = ARNs base" by simp
    from rolesLoop_effect [OF typed bd bs] obtain arns' seen' where
      loop: "rolesLoop n roles (ARNs base) seen = Returns (arns', seen')"
      and d: "distinct arns'"
      and s: "set arns' = set (ARNs base) \<union> set (roleStrings roles)"
      and se: "seen' = seen \<union> {n} \<times> set (roleStrings roles)"
      by blast
    let ?x = "base\<lparr>SSHKeys := SSHKeys base @ [k], ARNs := arns'\<rparr>"
    have step: "keysStep lib kfuc (key, ud) (users, seen) = (Returns (users(n \<mapsto> ?x), seen'), [])"
      using n k True roles loop
      by (simp add: keysStep_def recName_def recDefaultRole_def base_def Let_def cong: option.case_cong)
    have i: "seenInv (users(n \<mapsto> ?x)) seen'"
      unfolding se by (rule others) (simp_all add: d s)
    have rr: "recRoles kfuc ud = roleStrings roles"
      using roles by (simp add: recRoles_def)
    from step i True bk ba br bu s rr show ?thesis by auto
  qed
qed

lemma keysLoop_effect:
  assumes "list_all (keysWellTyped lib kfuc) recs" and "seenInv users seen"
  shows "\<exists>users' seen'.
           fst (keysLoop lib kfuc recs (users, seen)) = Returns (users', seen') \<and>
           seenInv users' seen' \<and>
           (\<forall>u. userKeysIn users' u = userKeysIn users u @ List.map_filter (recKey lib kfuc u) recs) \<and>
           (\<forall>u. users' u = None \<longleftrightarrow> users u = None \<and> List.map_filter (recKey lib kfuc u) recs = []) \<and>
           (\<forall>u. userARNsIn users' u =
                  userARNsIn users u \<union>
                  (if kfuc_enableServerRoles kfuc
                   then (\<Union>rec\<in>{rec \<in> set recs. usable lib kfuc u rec}. set (recRoles kfuc (snd rec)))
                   else {})) \<and>
           (\<forall>u x'. users' u = Some x' \<longrightarrow>
                  DefaultRole x' =
                    (case users u of
                       Some x \<Rightarrow> DefaultRole x
                     | None \<Rightarrow> (case List.find (usable lib kfuc u) recs of
                                  Some rec \<Rightarrow> recDefaultRole kfuc (snd rec)
                                | None \<Rightarrow> [])) \<and>
                  Username x' = (case users u of Some x \<Rightarrow> Username x | None \<Rightarrow> u))"
  using assms
proof (induction recs arbitrary: users seen)
  case Nil
  then show ?case by (simp add: userARNsIn_def split: option.split)
next
  case (Cons rec recs)
  obtain key ud where rec: "rec = (key, ud)" by (cases rec)
  from Cons.prems(1) have wt: "keysWellTyped lib kfuc (key, ud)"
    and rest: "list_all (keysWellTyped lib kfuc) recs"
    by (simp_all add: rec)
  from wt obtain n where n: "recName kfuc ud = Some n"
    by (auto simp: keysWellTyped_def)
  show ?case
  proof (cases "parseKey lib key")
    case None
    have step: "keysStep lib kfuc rec (users, seen) = (Returns (users, seen), [keyWarningFile n key])"
      unfolding rec by (rule keysStep_skip [OF n None])
    have nokey: "\<And>u. recKey lib kfuc u rec = None"
      using None by (simp add: recKey_def rec)
    have nouse: "\<And>u. \<not> usable lib kfuc u rec"
      using None by (simp add: usable_def rec)
    have e1: "fst (keysLoop lib kfuc (rec # recs) (users, seen)) = fst (keysLoop lib kfuc recs (users, seen))"
      by (simp add: step case_prod_beta)
    have e2: "\<And>u. List.map_filter (recKey lib kfuc u) (rec # recs) = List.map_filter (recKey lib kfuc u) recs"
      by (simp add: nokey)
    have e3: "\<And>u. {r \<in> set (rec # recs). usable lib kfuc u r} = {r \<in> set recs. usable lib kfuc u r}"
      using nouse by auto
    have e4: "\<And>u. List.find (usable lib kfuc u) (rec # recs) = List.find (usable lib kfuc u) recs"
      by (simp add: nouse)
    show ?thesis
      unfolding e1 e2 e3 e4 by (rule Cons.IH [OF rest Cons.prems(2)])
  next
    case (Some k)
    from keysStep_store [OF n Some wt Cons.prems(2)] obtain x' seen1 where
      step: "keysStep lib kfuc rec (users, seen) = (Returns (users(n \<mapsto> x'), seen1), [])"
      and inv1: "seenInv (users(n \<mapsto> x')) seen1"
      and keys1: "SSHKeys x' = userKeysIn users n @ [k]"
      and arns1: "set (ARNs x') = userARNsIn users n \<union>
              (if kfuc_enableServerRoles kfuc then set (recRoles kfuc ud) else {})"
      and role1: "DefaultRole x' = (case users n of Some x \<Rightarrow> DefaultRole x | None \<Rightarrow> recDefaultRole kfuc ud)"
      and name1: "Username x' = (case users n of Some x \<Rightarrow> Username x | None \<Rightarrow> n)"
      unfolding rec by blast
    let ?users1 = "users(n \<mapsto> x')"
    from Cons.IH [OF rest inv1] obtain users' seen' where
      loop: "fst (keysLoop lib kfuc recs (?users1, seen1)) = Returns (users', seen')"
      and inv': "seenInv users' seen'"
      and K: "\<And>u. userKeysIn users' u = userKeysIn ?users1 u @ List.map_filter (recKey lib kfuc u) recs"
      and N: "\<And>u. users' u = None \<longleftrightarrow> ?users1 u = None \<and> List.map_filter (recKey lib kfuc u) recs = []"
      and A: "\<And>u. userARNsIn users' u =
                  userARNsIn ?users1 u \<union>
                  (if kfuc_enableServerRoles kfuc
                   then (\<Union>rec\<in>{rec \<in> set recs. usable lib kfuc u rec}. set (recRoles kfuc (snd rec)))
                   else {})"
      and D: "\<And>u y. users' u = Some y \<Longrightarrow>
                  DefaultRole y =
                    (case ?users1 u of
                       Some x \<Rightarrow> DefaultRole x
                     | None \<Rightarrow> (case List.find (usable lib kfuc u) recs of
                                  Some rec \<Rightarrow> recDefaultRole kfuc (snd rec)
                                | None \<Rightarrow> [])) \<and>
                  Username y = (case ?users1 u of Some x \<Rightarrow> Username x | None \<Rightarrow> u)"
      by blast
    have key_n: "recKey lib kfuc n rec = Some k"
      using n Some by (simp add: recKey_def rec)
    have key_o: "\<And>u. u \<noteq> n \<Longrightarrow> recKey lib kfuc u rec = None"
      using n by (simp add: recKey_def rec)
    have use_n: "usable lib kfuc n rec"
      using n Some by (simp add: usable_def rec)
    have use_o: "\<And>u. u \<noteq> n \<Longrightarrow> \<not> usable lib kfuc u rec"
      using n by (simp add: usable_def rec)
    have whole: "fst (keysLoop lib kfuc (rec # recs) (users, seen)) = Returns (users', seen')"
      using loop by (simp add: step case_prod_beta)
    have K': "userKeysIn users' u = userKeysIn users u @ List.map_filter (recKey lib kfuc u) (rec # recs)" for u
      using K [of u] key_n key_o [of u] keys1
      by (cases "u = n") (simp_all add: userKeysIn_def)
    have N': "users' u = None \<longleftrightarrow> users u = None \<and> List.map_filter (recKey lib kfuc u) (rec # recs) = []" for u
      using N [of u] key_n key_o [of u]
      by (cases "u = n") simp_all
    have A': "userARNsIn users' u =
                  userARNsIn users u \<union>
                  (if kfuc_enableServerRoles kfuc
                   then (\<Union>rec\<in>{r \<in> set (rec # recs). usable lib kfuc u r}. set (recRoles kfuc (snd rec)))
                   else {})" for u
    proof (cases "u = n")
      case True
      have "{r \<in> set (rec # recs). usable lib kfuc n r} = insert rec {r \<in> set recs. usable lib kfuc n r}"
        using use_n by auto
      then show ?thesis
        using A [of n] arns1 True by (auto simp: userARNsIn_def rec)
    next
      case False
      have "{r \<in> set (rec # recs). usable lib kfuc u r} = {r \<in> set recs. usable lib kfuc u r}"
        using use_o [OF False] by auto
      then show ?thesis
        using A [of u] False by (simp add: userARNsIn_def)
    qed
    have D': "DefaultRole y =
                    (case users u of
                       Some x \<Rightarrow> DefaultRole x
                     | None \<Rightarrow> (case List.find (usable lib kfuc u) (rec # recs) of
                                  Some rec \<Rightarrow> recDefaultRole kfuc (snd rec)
                                | None \<Rightarrow> [])) \<and>
                  Username y = (case users u of Some x \<Rightarrow> Username x | None \<Rightarrow> u)"
      if "users' u = Some y" for u y
    proof (cases "u = n")
      case True
      have f: "List.find (usable lib kfuc u) (rec # recs) = Some rec"
        using use_n True by simp
      show ?thesis
        unfolding f using D [OF that] role1 name1 True
        by (simp add: rec split: option.split)
    next
      case False
      have f: "List.find (usable lib kfuc u) (rec # recs) = List.find (usable lib kfuc u) recs"
        using use_o [OF False] by simp
      show ?thesis
        unfolding f using D [OF that] False by simp
    qed
    from whole inv' K' N' A' D' show ?thesis by blast
  qed
qed

lemma keysLoop_warns:
  assumes "list_all (keysWellTyped lib kfuc) recs" and "seenInv users seen"
    and "(key, ud) \<in> set recs" and "parseKey lib key = None" and "recName kfuc ud = Some n"
  shows "keyWarningFile n key \<in> set (snd (keysLoop lib kfuc recs (users, seen)))"
  using assms
proof (induction recs arbitrary: users seen)
  case Nil
  then show ?case by simp
next
  case (Cons rec recs)
  obtain key' ud' where rec: "rec = (key', ud')" by (cases rec)
  from Cons.prems(1) have wt: "keysWellTyped lib kfuc (key', ud')"
    and rest: "list_all (keysWellTyped lib kfuc) recs"
    by (simp_all add: rec)
  from wt obtain n' where n': "recName kfuc ud' = Some n'"
    by (auto simp: keysWellTyped_def)
  show ?case
  proof (cases "parseKey lib key'")
    case None
    have step: "keysStep lib kfuc rec (users, seen) = (Returns (users, seen), [keyWarningFile n' key'])"
      unfolding rec by (rule keysStep_skip [OF n' None])
    show ?thesis
    proof (cases "(key, ud) = rec")
      case True
      then have "n' = n" "key' = key" using n' Cons.prems(5) rec by simp_all
      then show ?thesis by (simp add: step case_prod_beta)
    next
      case False
      with Cons.prems(3) have "(key, ud) \<in> set recs" by auto
      from Cons.IH [OF rest Cons.prems(2) this Cons.prems(4) Cons.prems(5)]
      show ?thesis by (simp add: step case_prod_beta)
    qed
  next
    case (Some k)
    from keysStep_store [OF n' Some wt Cons.prems(2)] obtain x' seen1 where
      step: "keysStep lib kfuc rec (users, seen) = (Returns (users(n' \<mapsto> x'), seen1), [])"
      and inv1: "seenInv (users(n' \<mapsto> x')) seen1"
      unfolding rec by blast
    have "(key, ud) \<noteq> rec" using Some Cons.prems(4) rec by auto
    with Cons.prems(3) have "(key, ud) \<in> set recs" by auto
    have e: "snd (keysLoop lib kfuc (rec # recs) (users, seen)) =
               snd (keysLoop lib kfuc recs (users(n' \<mapsto> x'), seen1))"
      by (simp add: step case_prod_beta)
    from \<open>(key, ud) \<in> set recs\<close> show ?thesis
      unfolding e by (rule Cons.IH [OF rest inv1 _ Cons.prems(4) Cons.prems(5)])
  qed
qed

lemma keysStep_keysFile [simp]:
  "keysStep lib (kfuc\<lparr>kfuc_keysFile := f\<rparr>) rec st = keysStep lib kfuc rec st"
  by (simp add: keysStep_def Let_def cong: if_cong option.case_cong prod.case_cong outcome.case_cong)

lemma keysLoop_keysFile [simp]:
  "keysLoop lib (kfuc\<lparr>kfuc_keysFile := f\<rparr>) recs st = keysLoop lib kfuc recs st"
  by (induction recs arbitrary: st) (simp_all split: prod.split outcome.split)

lemma seenInv_empty [simp]: "seenInv Map.empty {}"
  by (simp add: seenInv_def userARNsIn_def)

lemma keysFileUserCache_Update_ok:
  assumes "keysFileRecords kfuc = Some recs" and "list_all (keysWellTyped lib kfuc) recs"
  shows "fst (keysFileUserCache_Update lib kfuc) = Returns None"
    and "\<exists>seen'. fst (keysLoop lib kfuc recs (Map.empty, {})) =
           Returns (kfuc_users (fst (snd (keysFileUserCache_Update lib kfuc))), seen')"
    and "set (snd (keysLoop lib kfuc recs (Map.empty, {}))) \<subseteq>
           set (snd (snd (keysFileUserCache_Update lib kfuc)))"
proof -
  obtain r kfuc1 where l: "kfuc_Load kfuc = (r, kfuc1)" by (cases "kfuc_Load kfuc")
  obtain q kfuc2 where k: "kfuc_Keys kfuc1 = (q, kfuc2)" by (cases "kfuc_Keys kfuc1")
  from assms(1) l k have r: "r = None" and q: "q = Inr recs"
    by (auto simp: keysFileRecords_def split: option.splits sum.splits)
  have k1: "kfuc1 = kfuc\<lparr>kfuc_keysFile := kfuc_keysFile kfuc1\<rparr>"
    using l by (auto simp: kfuc_Load_def case_prod_beta)
  have k2: "kfuc2 = kfuc1\<lparr>kfuc_keysFile := kfuc_keysFile kfuc2\<rparr>"
    using k by (auto simp: kfuc_Keys_def case_prod_beta)
  have loop: "keysLoop lib kfuc2 recs (Map.empty, {}) = keysLoop lib kfuc recs (Map.empty, {})"
    by (subst k2, subst k1) simp
  from keysLoop_effect [OF assms(2) seenInv_empty] obtain users' seen' where
    res: "fst (keysLoop lib kfuc recs (Map.empty, {})) = Returns (users', seen')"
    by blast
  then obtain evs where full: "keysLoop lib kfuc recs (Map.empty, {}) = (Returns (users', seen'), evs)"
    by (cases "keysLoop lib kfuc recs (Map.empty, {})") simp
  have upd: "keysFileUserCache_Update lib kfuc =
               (Returns None, kfuc2\<lparr>kfuc_users := users'\<rparr>,
                TimeNow # evs @ [Debug ''Keys file information re-cached.'' [],
                                  Timing ''keysFileCacheUpdate''])"
    using l k r q loop full by (simp add: keysFileUserCache_Update_def)
  show "fst (keysFileUserCache_Update lib kfuc) = Returns None"
    by (simp add: upd)
  show "\<exists>seen'. fst (keysLoop lib kfuc recs (Map.empty, {})) =
           Returns (kfuc_users (fst (snd (keysFileUserCache_Update lib kfuc))), seen')"
    by (simp add: upd full)
  show "set (snd (keysLoop lib kfuc recs (Map.empty, {}))) \<subseteq>
           set (snd (snd (keysFileUserCache_Update lib kfuc)))"
    by (auto simp: upd full)
qed

lemma ex_keysFileRecords [simp]: "keysFileRecords (ex_kfuc us (ex_keysFile recs)) = Some recs"
  by (simp add: keysFileRecords_def kfuc_Load_def kfuc_Keys_def ex_kfuc_def ex_keysFile_def)

lemma ex_keysWellTyped [simp]: "keysWellTyped ex_lib (ex_kfuc us kf) (ex_rec key name role roles)"
  by (simp add: keysWellTyped_def recName_def assertString_def assertList_def ex_kfuc_def ex_rec_def
        list_all_iff)
lemma keysLoop_from_empty:
  assumes "list_all (keysWellTyped lib kfuc) recs"
  shows "\<exists>users' seen'.
           fst (keysLoop lib kfuc recs (Map.empty, {})) = Returns (users', seen') \<and>
           seenInv users' seen' \<and>
           (\<forall>u. userKeysIn users' u = List.map_filter (recKey lib kfuc u) recs) \<and>
           (\<forall>u. users' u = None \<longleftrightarrow> List.map_filter (recKey lib kfuc u) recs = []) \<and>
           (\<forall>u. userARNsIn users' u =
                  (if kfuc_enableServerRoles kfuc
                   then (\<Union>rec\<in>{rec \<in> set recs. usable lib kfuc u rec}. set (recRoles kfuc (snd rec)))
                   else {})) \<and>
           (\<forall>u x'. users' u = Some x' \<longrightarrow>
                  DefaultRole x' =
                    (case List.find (usable lib kfuc u) recs of
                       Some rec \<Rightarrow> recDefaultRole kfuc (snd rec)
                     | None \<Rightarrow> []) \<and>
                  Username x' = u)"
proof -
  have k: "\<And>u. userKeysIn Map.empty u = []" and a: "\<And>u. userARNsIn Map.empty u = {}"
    by (simp_all add: userKeysIn_def userARNsIn_def)
  from keysLoop_effect [OF assms seenInv_empty] show ?thesis
    unfolding k a by simp
qed

lemma keysFileUserCache_Update_effect:
  assumes "keysFileRecords kfuc = Some recs" and "list_all (keysWellTyped lib kfuc) recs"
  shows "userKeysIn (kfuc_users (fst (snd (keysFileUserCache_Update lib kfuc)))) u =
           List.map_filter (recKey lib kfuc u) recs"
    and "kfuc_users (fst (snd (keysFileUserCache_Update lib kfuc))) u = None \<longleftrightarrow>
           List.map_filter (recKey lib kfuc u) recs = []"
    and "userARNsIn (kfuc_users (fst (snd (keysFileUserCache_Update lib kfuc)))) u =
           (if kfuc_enableServerRoles kfuc
            then (\<Union>rec\<in>{rec \<in> set recs. usable lib kfuc u rec}. set (recRoles kfuc (snd rec)))
            else {})"
    and "kfuc_users (fst (snd (keysFileUserCache_Update lib kfuc))) u = Some x \<Longrightarrow> distinct (ARNs x)"
    and "kfuc_users (fst (snd (keysFileUserCache_Update lib kfuc))) u = Some x \<Longrightarrow>
           DefaultRole x = (case List.find (usable lib kfuc u) recs of
                              Some rec \<Rightarrow> recDefaultRole kfuc (snd rec)
                            | None \<Rightarrow> []) \<and>
           Username x = u"
proof -
  let ?users' = "kfuc_users (fst (snd (keysFileUserCache_Update lib kfuc)))"
  from keysLoop_from_empty [OF assms(2)] obtain users2 seen2 where
    res2: "fst (keysLoop lib kfuc recs (Map.empty, {})) = Returns (users2, seen2)"
    and inv: "seenInv users2 seen2"
    and K: "\<And>u. userKeysIn users2 u = List.map_filter (recKey lib kfuc u) recs"
    and N: "\<And>u. users2 u = None \<longleftrightarrow> List.map_filter (recKey lib kfuc u) recs = []"
    and A: "\<And>u. userARNsIn users2 u =
              (if kfuc_enableServerRoles kfuc
               then (\<Union>rec\<in>{rec \<in> set recs. usable lib kfuc u rec}. set (recRoles kfuc (snd rec)))
               else {})"
    and D: "\<And>u y. users2 u = Some y \<Longrightarrow>
              DefaultRole y =
                (case List.find (usable lib kfuc u) recs of
                   Some rec \<Rightarrow> recDefaultRole kfuc (snd rec)
                 | None \<Rightarrow> []) \<and>
              Username y = u"
    by blast
  from keysFileUserCache_Update_ok(2) [OF assms] res2 have same: "?users' = users2"
    by auto
  show "userKeysIn ?users' u = List.map_filter (recKey lib kfuc u) recs"
    using K [of u] by (simp add: same)
  show "?users' u = None \<longleftrightarrow> List.map_filter (recKey lib kfuc u) recs = []"
    using N [of u] by (simp add: same)
  show "userARNsIn ?users' u =
           (if kfuc_enableServerRoles kfuc
            then (\<Union>rec\<in>{rec \<in> set recs. usable lib kfuc u rec}. set (recRoles kfuc (snd rec)))
            else {})"
    using A [of u] by (simp add: same)
  show "distinct (ARNs x)" if "?users' u = Some x"
    using that inv by (simp add: same seenInv_def)
  show "DefaultRole x = (case List.find (usable lib kfuc u) recs of
                              Some rec \<Rightarrow> recDefaultRole kfuc (snd rec)
                            | None \<Rightarrow> []) \<and>
           Username x = u" if "?users' u = Some x"
    using D [of u x] that by (simp add: same)
qed

lemma ex_recName [simp]: "recName (ex_kfuc us kf) (snd (ex_rec key name role roles)) = Some name"
  by (simp add: recName_def assertString_def ex_kfuc_def ex_rec_def)

lemma ex_recKey [simp]:
  "recKey ex_lib (ex_kfuc us kf) u (ex_rec key name role roles) =
     (if name = u then parseKey ex_lib key else None)"
  by (simp add: recKey_def recName_def assertString_def ex_kfuc_def ex_rec_def)

lemma ex_usable [simp]:
  "usable ex_lib (ex_kfuc us kf) u (ex_rec key name role roles) \<longleftrightarrow>
     name = u \<and> parseKey ex_lib key \<noteq> None"
  by (simp add: usable_def recName_def assertString_def ex_kfuc_def ex_rec_def)

lemma ex_recDefaultRole [simp]:
  "recDefaultRole (ex_kfuc us kf) (snd (ex_rec key name role roles)) = (if role = [] then ''dflt'' else role)"
  by (simp add: recDefaultRole_def assertString_def ex_kfuc_def ex_rec_def)

lemma ex_parseKey [simp]:
  "parseKey ex_lib (CHR ''A'' # CHR ''A'' # CHR ''A'' # CHR ''A'' # rest) =
     Some (CHR ''A'' # CHR ''A'' # CHR ''A'' # CHR ''A'' # rest)"
  "parseKey ex_lib ''bad'' = None"
  "parseKey ex_lib ''ssh-rsa K2'' = Some ''K2''"
  by (simp_all add: parseKey_def ex_lib_def)

subsection \<open>Authentication\<close>

text \<open>
  C1: in both caches, when the scan of the current users finds no user with a key that
  verifies the signature, \<^verbatim>\<open>Authenticate\<close> calls \<^verbatim>\<open>Update\<close> exactly once: the cache and the
  events afterwards are those of one \<^verbatim>\<open>Update\<close> of the cache as it was, after the two events
  of the miss. When that update returns no error the result is the result of one scan of
  the updated cache; when it returns an error the result is that error. When the first scan
  finds a user, that user is returned, the cache is unchanged and no event is emitted, so
  \<^verbatim>\<open>Update\<close> is not called.
\<close>

theorem Authenticate_updates_once_on_miss:
  "(fst (ldapUserCache_verify lib order1 luc username challenge sshSig) = None \<longrightarrow>
      updateCalls (snd (snd (ldapUserCache_Authenticate lib order1 order2 luc username challenge sshSig))) = 1 \<and>
      snd (ldapUserCache_Authenticate lib order1 order2 luc username challenge sshSig) =
        (fst (snd (ldapUserCache_Update lib luc)),
         Debug ''Could not find %s in the LDAP cache; updating from the server.'' [Str username] #
         Counter ''ldapCacheMiss'' # snd (snd (ldapUserCache_Update lib luc))) \<and>
      fst (ldapUserCache_Authenticate lib order1 order2 luc username challenge sshSig) =
        (case fst (ldapUserCache_Update lib luc) of
           Some err \<Rightarrow> (None, Some err)
         | None \<Rightarrow> ldapUserCache_verify lib order2 (fst (snd (ldapUserCache_Update lib luc)))
                     username challenge sshSig)) \<and>
   (fst (ldapUserCache_verify lib order1 luc username challenge sshSig) \<noteq> None \<longrightarrow>
      ldapUserCache_Authenticate lib order1 order2 luc username challenge sshSig =
        ((fst (ldapUserCache_verify lib order1 luc username challenge sshSig), None), luc, [])) \<and>
   (fst (keysFileUserCache_verify lib order1 kfuc challenge sshSig) = None \<longrightarrow>
      updateCalls (snd (snd (keysFileUserCache_Authenticate lib order1 order2 kfuc username challenge sshSig))) = 1 \<and>
      snd (keysFileUserCache_Authenticate lib order1 order2 kfuc username challenge sshSig) =
        (fst (snd (keysFileUserCache_Update lib kfuc)),
         Debug ''Could not find %s in the keys file cache; updating from the file.'' [Str username] #
         Counter ''keysFileCacheMiss'' # snd (snd (keysFileUserCache_Update lib kfuc))) \<and>
      fst (keysFileUserCache_Authenticate lib order1 order2 kfuc username challenge sshSig) =
        (case fst (keysFileUserCache_Update lib kfuc) of
           Panics \<Rightarrow> Panics
         | Returns (Some err) \<Rightarrow> Returns (None, Some err)
         | Returns None \<Rightarrow>
             Returns (keysFileUserCache_verify lib order2 (fst (snd (keysFileUserCache_Update lib kfuc)))
                        challenge sshSig))) \<and>
   (fst (keysFileUserCache_verify lib order1 kfuc challenge sshSig) \<noteq> None \<longrightarrow>
      keysFileUserCache_Authenticate lib order1 order2 kfuc username challenge sshSig =
        (Returns (fst (keysFileUserCache_verify lib order1 kfuc challenge sshSig), None), kfuc, []))"
proof -
  have l: "updateCalls (snd (snd (ldapUserCache_Update lib luc))) = 1"
    by (rule ldapUserCache_Update_calls)
  have k: "updateCalls (snd (snd (keysFileUserCache_Update lib kfuc))) = 1"
    by (rule keysFileUserCache_Update_calls)
  have 1: "fst (ldapUserCache_verify lib order1 luc username challenge sshSig) = None \<longrightarrow>
      updateCalls (snd (snd (ldapUserCache_Authenticate lib order1 order2 luc username challenge sshSig))) = 1 \<and>
      snd (ldapUserCache_Authenticate lib order1 order2 luc username challenge sshSig) =
        (fst (snd (ldapUserCache_Update lib luc)),
         Debug ''Could not find %s in the LDAP cache; updating from the server.'' [Str username] #
         Counter ''ldapCacheMiss'' # snd (snd (ldapUserCache_Update lib luc))) \<and>
      fst (ldapUserCache_Authenticate lib order1 order2 luc username challenge sshSig) =
        (case fst (ldapUserCache_Update lib luc) of
           Some err \<Rightarrow> (None, Some err)
         | None \<Rightarrow> ldapUserCache_verify lib order2 (fst (snd (ldapUserCache_Update lib luc)))
                     username challenge sshSig)"
    using l by (simp add: ldapUserCache_Authenticate_def case_prod_beta split: option.split)
  have 2: "fst (ldapUserCache_verify lib order1 luc username challenge sshSig) \<noteq> None \<longrightarrow>
      ldapUserCache_Authenticate lib order1 order2 luc username challenge sshSig =
        ((fst (ldapUserCache_verify lib order1 luc username challenge sshSig), None), luc, [])"
    by (auto simp: ldapUserCache_Authenticate_def)
  have 3: "fst (keysFileUserCache_verify lib order1 kfuc challenge sshSig) = None \<longrightarrow>
      updateCalls (snd (snd (keysFileUserCache_Authenticate lib order1 order2 kfuc username challenge sshSig))) = 1 \<and>
      snd (keysFileUserCache_Authenticate lib order1 order2 kfuc username challenge sshSig) =
        (fst (snd (keysFileUserCache_Update lib kfuc)),
         Debug ''Could not find %s in the keys file cache; updating from the file.'' [Str username] #
         Counter ''keysFileCacheMiss'' # snd (snd (keysFileUserCache_Update lib kfuc))) \<and>
      fst (keysFileUserCache_Authenticate lib order1 order2 kfuc username challenge sshSig) =
        (case fst (keysFileUserCache_Update lib kfuc) of
           Panics \<Rightarrow> Panics
         | Returns (Some err) \<Rightarrow> Returns (None, Some err)
         | Returns None \<Rightarrow>
             Returns (keysFileUserCache_verify lib order2 (fst (snd (keysFileUserCache_Update lib kfuc)))
                        challenge sshSig))"
    using k by (simp add: keysFileUserCache_Authenticate_def case_prod_beta split: option.split outcome.split)
  have 4: "fst (keysFileUserCache_verify lib order1 kfuc challenge sshSig) \<noteq> None \<longrightarrow>
      keysFileUserCache_Authenticate lib order1 order2 kfuc username challenge sshSig =
        (Returns (fst (keysFileUserCache_verify lib order1 kfuc challenge sshSig), None), kfuc, [])"
    by (auto simp: keysFileUserCache_Authenticate_def)
  from 1 2 3 4 show ?thesis by blast
qed

theorem Authenticate_updates_once_on_miss_witness:
  "fst (ldapUserCache_verify ex_lib []
          (ex_luc Map.empty (ex_server [] [ex_entry ''alice'' [''AAAA1''] []]))
          ''alice'' ''c'' (''AAAA1'', ''c'')) = None \<and>
   updateCalls (snd (snd (ldapUserCache_Authenticate ex_lib [] [''alice'']
          (ex_luc Map.empty (ex_server [] [ex_entry ''alice'' [''AAAA1''] []]))
          ''alice'' ''c'' (''AAAA1'', ''c'')))) = 1 \<and>
   fst (ldapUserCache_Authenticate ex_lib [] [''alice'']
          (ex_luc Map.empty (ex_server [] [ex_entry ''alice'' [''AAAA1''] []]))
          ''alice'' ''c'' (''AAAA1'', ''c'')) = (Some (ex_user ''alice'' [''AAAA1'']), None) \<and>
   ldapUserCache_Authenticate ex_lib [''alice''] []
          (ex_luc [''alice'' \<mapsto> ex_user ''alice'' [''AAAA1'']] ex_server_down)
          ''alice'' ''c'' (''AAAA1'', ''c'') =
     ((Some (ex_user ''alice'' [''AAAA1'']), None),
      ex_luc [''alice'' \<mapsto> ex_user ''alice'' [''AAAA1'']] ex_server_down, []) \<and>
   fst (keysFileUserCache_verify ex_lib []
          (ex_kfuc Map.empty (ex_keysFile [ex_rec ''AAAA1'' ''alice'' ''dflt'' []]))
          ''c'' (''AAAA1'', ''c'')) = None \<and>
   updateCalls (snd (snd (keysFileUserCache_Authenticate ex_lib [] [''alice'']
          (ex_kfuc Map.empty (ex_keysFile [ex_rec ''AAAA1'' ''alice'' ''dflt'' []]))
          ''alice'' ''c'' (''AAAA1'', ''c'')))) = 1 \<and>
   fst (keysFileUserCache_Authenticate ex_lib [] [''alice'']
          (ex_kfuc Map.empty (ex_keysFile [ex_rec ''AAAA1'' ''alice'' ''dflt'' []]))
          ''alice'' ''c'' (''AAAA1'', ''c'')) = Returns (Some (ex_user ''alice'' [''AAAA1'']), None) \<and>
   keysFileUserCache_Authenticate ex_lib [''alice''] []
          (ex_kfuc [''alice'' \<mapsto> ex_user ''alice'' [''AAAA1'']] ex_keysFile_unreadable)
          ''alice'' ''c'' (''AAAA1'', ''c'') =
     (Returns (Some (ex_user ''alice'' [''AAAA1'']), None),
      ex_kfuc [''alice'' \<mapsto> ex_user ''alice'' [''AAAA1'']] ex_keysFile_unreadable, [])"
proof -
  let ?sg = "(''AAAA1'', ''c'')"
  let ?luc0 = "ex_luc Map.empty (ex_server [] [ex_entry ''alice'' [''AAAA1''] []])"
  let ?luc1 = "ex_luc [''alice'' \<mapsto> ex_user ''alice'' [''AAAA1'']] ex_server_down"
  let ?kf0 = "ex_kfuc Map.empty (ex_keysFile [ex_rec ''AAAA1'' ''alice'' ''dflt'' []])"
  let ?kf1 = "ex_kfuc [''alice'' \<mapsto> ex_user ''alice'' [''AAAA1'']] ex_keysFile_unreadable"
  have m0: "fst (ldapUserCache_verify ex_lib [] ?luc0 ''alice'' ''c'' ?sg) = None"
    by (simp add: ldapUserCache_verify_def)
  have u0: "fst (ldapUserCache_Update ex_lib ?luc0) = None"
    by (simp add: ex_defs model_defs)
  have s0: "luc_users (fst (snd (ldapUserCache_Update ex_lib ?luc0))) =
              [''alice'' \<mapsto> ex_user ''alice'' [''AAAA1'']]"
    by (simp add: ex_defs model_defs)
  have v0: "ldapUserCache_verify ex_lib [''alice''] (fst (snd (ldapUserCache_Update ex_lib ?luc0)))
              ''alice'' ''c'' ?sg = (Some (ex_user ''alice'' [''AAAA1'']), None)"
    by (simp add: s0 ldapUserCache_verify_def keyVerifies_def) (simp add: ex_defs)
  have m1: "fst (ldapUserCache_verify ex_lib [''alice''] ?luc1 ''alice'' ''c'' ?sg) \<noteq> None"
    by (simp add: ex_defs model_defs)
  have r1: "fst (ldapUserCache_verify ex_lib [''alice''] ?luc1 ''alice'' ''c'' ?sg) =
              Some (ex_user ''alice'' [''AAAA1''])"
    by (simp add: ex_defs model_defs)
  have n0: "fst (keysFileUserCache_verify ex_lib [] ?kf0 ''c'' ?sg) = None"
    by (simp add: keysFileUserCache_verify_def)
  have w0: "fst (keysFileUserCache_Update ex_lib ?kf0) = Returns None"
    by (simp add: ex_defs model_defs)
  have t0: "kfuc_users (fst (snd (keysFileUserCache_Update ex_lib ?kf0))) =
              [''alice'' \<mapsto> ex_user ''alice'' [''AAAA1'']]"
    by (simp add: ex_defs model_defs)
  have x0: "keysFileUserCache_verify ex_lib [''alice''] (fst (snd (keysFileUserCache_Update ex_lib ?kf0)))
              ''c'' ?sg = (Some (ex_user ''alice'' [''AAAA1'']), None)"
    by (simp add: t0 keysFileUserCache_verify_def keyVerifies_def) (simp add: ex_defs)
  have n1: "fst (keysFileUserCache_verify ex_lib [''alice''] ?kf1 ''c'' ?sg) \<noteq> None"
    by (simp add: ex_defs model_defs)
  have q1: "fst (keysFileUserCache_verify ex_lib [''alice''] ?kf1 ''c'' ?sg) =
              Some (ex_user ''alice'' [''AAAA1''])"
    by (simp add: ex_defs model_defs)
  note miss = Authenticate_updates_once_on_miss
            [where lib = ex_lib and ?order1.0 = "[]" and ?order2.0 = "[''alice'']" and luc = ?luc0
               and kfuc = ?kf0 and username = "''alice''" and challenge = "''c''" and sshSig = ?sg]
  note hit = Authenticate_updates_once_on_miss
            [where lib = ex_lib and ?order1.0 = "[''alice'']" and ?order2.0 = "[]" and luc = ?luc1
               and kfuc = ?kf1 and username = "''alice''" and challenge = "''c''" and sshSig = ?sg]
  have a: "updateCalls (snd (snd (ldapUserCache_Authenticate ex_lib [] [''alice''] ?luc0 ''alice'' ''c'' ?sg))) = 1"
    using miss m0 by blast
  have b: "fst (ldapUserCache_Authenticate ex_lib [] [''alice''] ?luc0 ''alice'' ''c'' ?sg) =
             (case fst (ldapUserCache_Update ex_lib ?luc0) of
                Some err \<Rightarrow> (None, Some err)
              | None \<Rightarrow> ldapUserCache_verify ex_lib [''alice''] (fst (snd (ldapUserCache_Update ex_lib ?luc0)))
                          ''alice'' ''c'' ?sg)"
    using miss m0 by blast
  have c: "ldapUserCache_Authenticate ex_lib [''alice''] [] ?luc1 ''alice'' ''c'' ?sg =
             ((fst (ldapUserCache_verify ex_lib [''alice''] ?luc1 ''alice'' ''c'' ?sg), None), ?luc1, [])"
    using hit m1 by blast
  have d: "updateCalls (snd (snd (keysFileUserCache_Authenticate ex_lib [] [''alice''] ?kf0 ''alice'' ''c'' ?sg))) = 1"
    using miss n0 by blast
  have e: "fst (keysFileUserCache_Authenticate ex_lib [] [''alice''] ?kf0 ''alice'' ''c'' ?sg) =
             (case fst (keysFileUserCache_Update ex_lib ?kf0) of
                Panics \<Rightarrow> Panics
              | Returns (Some err) \<Rightarrow> Returns (None, Some err)
              | Returns None \<Rightarrow>
                  Returns (keysFileUserCache_verify ex_lib [''alice''] (fst (snd (keysFileUserCache_Update ex_lib ?kf0)))
                             ''c'' ?sg))"
    using miss n0 by blast
  have f: "keysFileUserCache_Authenticate ex_lib [''alice''] [] ?kf1 ''alice'' ''c'' ?sg =
             (Returns (fst (keysFileUserCache_verify ex_lib [''alice''] ?kf1 ''c'' ?sg), None), ?kf1, [])"
    using hit n1 by blast
  show ?thesis
    unfolding a b c d e f u0 v0 r1 w0 x0 q1 using m0 n0 by simp
qed

text \<open>
  C2: in both caches, \<^verbatim>\<open>Authenticate\<close> returns no user and no error when no key of the
  cached users verifies the signature, the update made on that miss returns no error, and
  no key of the users cached after it verifies the signature either. It returns an error
  only together with no user, and only when the first scan found nothing and the
  \<^verbatim>\<open>Update\<close> it then called returned that same error.
\<close>

theorem Authenticate_not_found_is_no_error:
  "((\<forall>user\<in>ran (luc_users luc). \<not> keyVerifies lib user challenge sshSig) \<and>
    fst (ldapUserCache_Update lib luc) = None \<and>
    (\<forall>user\<in>ran (luc_users (fst (snd (ldapUserCache_Update lib luc)))).
        \<not> keyVerifies lib user challenge sshSig) \<longrightarrow>
    fst (ldapUserCache_Authenticate lib order1 order2 luc username challenge sshSig) = (None, None)) \<and>
   (\<forall>r err. fst (ldapUserCache_Authenticate lib order1 order2 luc username challenge sshSig) = (r, Some err) \<longrightarrow>
      r = None \<and> fst (ldapUserCache_Update lib luc) = Some err \<and>
      scanUsers lib (luc_users luc) order1 challenge sshSig = None) \<and>
   ((\<forall>user\<in>ran (kfuc_users kfuc). \<not> keyVerifies lib user challenge sshSig) \<and>
    fst (keysFileUserCache_Update lib kfuc) = Returns None \<and>
    (\<forall>user\<in>ran (kfuc_users (fst (snd (keysFileUserCache_Update lib kfuc)))).
        \<not> keyVerifies lib user challenge sshSig) \<longrightarrow>
    fst (keysFileUserCache_Authenticate lib order1 order2 kfuc username challenge sshSig) =
      Returns (None, None)) \<and>
   (\<forall>r err. fst (keysFileUserCache_Authenticate lib order1 order2 kfuc username challenge sshSig) =
        Returns (r, Some err) \<longrightarrow>
      r = None \<and> fst (keysFileUserCache_Update lib kfuc) = Returns (Some err) \<and>
      scanUsers lib (kfuc_users kfuc) order1 challenge sshSig = None)"
proof -
  have 1: "(\<forall>user\<in>ran (luc_users luc). \<not> keyVerifies lib user challenge sshSig) \<and>
    fst (ldapUserCache_Update lib luc) = None \<and>
    (\<forall>user\<in>ran (luc_users (fst (snd (ldapUserCache_Update lib luc)))).
        \<not> keyVerifies lib user challenge sshSig) \<longrightarrow>
    fst (ldapUserCache_Authenticate lib order1 order2 luc username challenge sshSig) = (None, None)"
    by (simp add: ldapUserCache_Authenticate_def ldapUserCache_verify_def scanUsers_no_key
          case_prod_beta)
  have 2: "\<forall>r err. fst (ldapUserCache_Authenticate lib order1 order2 luc username challenge sshSig) = (r, Some err) \<longrightarrow>
      r = None \<and> fst (ldapUserCache_Update lib luc) = Some err \<and>
      scanUsers lib (luc_users luc) order1 challenge sshSig = None"
    by (simp add: ldapUserCache_Authenticate_def ldapUserCache_verify_def case_prod_beta
          split: option.split)
  have 3: "(\<forall>user\<in>ran (kfuc_users kfuc). \<not> keyVerifies lib user challenge sshSig) \<and>
    fst (keysFileUserCache_Update lib kfuc) = Returns None \<and>
    (\<forall>user\<in>ran (kfuc_users (fst (snd (keysFileUserCache_Update lib kfuc)))).
        \<not> keyVerifies lib user challenge sshSig) \<longrightarrow>
    fst (keysFileUserCache_Authenticate lib order1 order2 kfuc username challenge sshSig) =
      Returns (None, None)"
    by (simp add: keysFileUserCache_Authenticate_def keysFileUserCache_verify_def scanUsers_no_key
          case_prod_beta)
  have 4: "\<forall>r err. fst (keysFileUserCache_Authenticate lib order1 order2 kfuc username challenge sshSig) =
        Returns (r, Some err) \<longrightarrow>
      r = None \<and> fst (keysFileUserCache_Update lib kfuc) = Returns (Some err) \<and>
      scanUsers lib (kfuc_users kfuc) order1 challenge sshSig = None"
    by (simp add: keysFileUserCache_Authenticate_def keysFileUserCache_verify_def case_prod_beta
          split: option.split outcome.split)
  from 1 2 3 4 show ?thesis by blast
qed

theorem Authenticate_not_found_is_no_error_witness:
  "fst (ldapUserCache_Authenticate ex_lib [''alice''] [''alice'']
          (ex_luc [''alice'' \<mapsto> ex_user ''alice'' [''AAAA1'']]
             (ex_server [] [ex_entry ''alice'' [''AAAA1''] []]))
          ''mallory'' ''c'' (''AAAA9'', ''c'')) = (None, None) \<and>
   fst (ldapUserCache_Authenticate ex_lib [] [] (ex_luc Map.empty ex_server_down)
          ''alice'' ''c'' (''AAAA1'', ''c'')) = (None, Some (Error ''down'')) \<and>
   fst (ldapUserCache_Update ex_lib (ex_luc Map.empty ex_server_down)) = Some (Error ''down'') \<and>
   fst (keysFileUserCache_Authenticate ex_lib [''alice''] [''alice'']
          (ex_kfuc [''alice'' \<mapsto> ex_user ''alice'' [''AAAA1'']]
             (ex_keysFile [ex_rec ''AAAA1'' ''alice'' ''dflt'' []]))
          ''mallory'' ''c'' (''AAAA9'', ''c'')) = Returns (None, None) \<and>
   fst (keysFileUserCache_Authenticate ex_lib [] [] (ex_kfuc Map.empty ex_keysFile_unreadable)
          ''alice'' ''c'' (''AAAA1'', ''c'')) = Returns (None, Some (Error ''unreadable'')) \<and>
   fst (keysFileUserCache_Update ex_lib (ex_kfuc Map.empty ex_keysFile_unreadable)) =
     Returns (Some (Error ''unreadable''))"
proof -
  let ?sg = "(''AAAA9'', ''c'')"
  let ?luc0 = "ex_luc [''alice'' \<mapsto> ex_user ''alice'' [''AAAA1'']]
                 (ex_server [] [ex_entry ''alice'' [''AAAA1''] []])"
  let ?luc1 = "ex_luc Map.empty ex_server_down :: (string, unit) ldapUserCache"
  let ?kf0 = "ex_kfuc [''alice'' \<mapsto> ex_user ''alice'' [''AAAA1'']]
                (ex_keysFile [ex_rec ''AAAA1'' ''alice'' ''dflt'' []])"
  let ?kf1 = "ex_kfuc Map.empty ex_keysFile_unreadable :: (string, unit) keysFileUserCache"
  note nf = Authenticate_not_found_is_no_error
            [where lib = ex_lib and ?order1.0 = "[''alice'']" and ?order2.0 = "[''alice'']"
               and luc = ?luc0 and kfuc = ?kf0 and username = "''mallory''"
               and challenge = "''c''" and sshSig = ?sg]
  note er = Authenticate_not_found_is_no_error
            [where lib = ex_lib and ?order1.0 = "[]" and ?order2.0 = "[]"
               and luc = ?luc1 and kfuc = ?kf1 and username = "''alice''"
               and challenge = "''c''" and sshSig = "(''AAAA1'', ''c'')"]
  have h1: "\<forall>user\<in>ran (luc_users ?luc0). \<not> keyVerifies ex_lib user ''c'' ?sg"
    by (simp add: ex_defs keyVerifies_def)
  have h2: "fst (ldapUserCache_Update ex_lib ?luc0) = None"
    by (simp add: ex_defs model_defs)
  have s0: "luc_users (fst (snd (ldapUserCache_Update ex_lib ?luc0))) =
              [''alice'' \<mapsto> ex_user ''alice'' [''AAAA1'']]"
    by (simp add: ex_defs model_defs)
  have h3: "\<forall>user\<in>ran (luc_users (fst (snd (ldapUserCache_Update ex_lib ?luc0)))).
              \<not> keyVerifies ex_lib user ''c'' ?sg"
    unfolding s0 by (simp add: ex_defs keyVerifies_def)
  have a: "fst (ldapUserCache_Authenticate ex_lib [''alice''] [''alice''] ?luc0 ''mallory'' ''c'' ?sg) =
             (None, None)"
    using nf h1 h2 h3 by blast
  have e1: "fst (ldapUserCache_Authenticate ex_lib [] [] ?luc1 ''alice'' ''c'' (''AAAA1'', ''c'')) =
              (None, Some (Error ''down''))"
    by (simp add: ex_defs model_defs)
  have b: "fst (ldapUserCache_Update ex_lib ?luc1) = Some (Error ''down'')"
    using er e1 by blast
  have k1: "\<forall>user\<in>ran (kfuc_users ?kf0). \<not> keyVerifies ex_lib user ''c'' ?sg"
    by (simp add: ex_defs keyVerifies_def)
  have k2: "fst (keysFileUserCache_Update ex_lib ?kf0) = Returns None"
    by (simp add: ex_defs model_defs)
  have t0: "kfuc_users (fst (snd (keysFileUserCache_Update ex_lib ?kf0))) =
              [''alice'' \<mapsto> ex_user ''alice'' [''AAAA1'']]"
    by (simp add: ex_defs model_defs)
  have k3: "\<forall>user\<in>ran (kfuc_users (fst (snd (keysFileUserCache_Update ex_lib ?kf0)))).
              \<not> keyVerifies ex_lib user ''c'' ?sg"
    unfolding t0 by (simp add: ex_defs keyVerifies_def)
  have c: "fst (keysFileUserCache_Authenticate ex_lib [''alice''] [''alice''] ?kf0 ''mallory'' ''c'' ?sg) =
             Returns (None, None)"
    using nf k1 k2 k3 by blast
  have e2: "fst (keysFileUserCache_Authenticate ex_lib [] [] ?kf1 ''alice'' ''c'' (''AAAA1'', ''c'')) =
              Returns (None, Some (Error ''unreadable''))"
    by (simp add: ex_defs model_defs)
  have d: "fst (keysFileUserCache_Update ex_lib ?kf1) = Returns (Some (Error ''unreadable''))"
    using er e2 by blast
  from a e1 b c e2 d show ?thesis by blast
qed

text \<open>
  C9: in both caches, with the cache and the orders of the scans fixed, the user and the
  error that \<^verbatim>\<open>Authenticate\<close> returns, and the cache it leaves, are the same for any two
  user names given with the same challenge and signature.
\<close>

theorem Authenticate_ignores_username:
  "fst (ldapUserCache_Authenticate lib order1 order2 luc u1 challenge sshSig) =
     fst (ldapUserCache_Authenticate lib order1 order2 luc u2 challenge sshSig) \<and>
   fst (snd (ldapUserCache_Authenticate lib order1 order2 luc u1 challenge sshSig)) =
     fst (snd (ldapUserCache_Authenticate lib order1 order2 luc u2 challenge sshSig)) \<and>
   fst (keysFileUserCache_Authenticate lib order1 order2 kfuc u1 challenge sshSig) =
     fst (keysFileUserCache_Authenticate lib order1 order2 kfuc u2 challenge sshSig) \<and>
   fst (snd (keysFileUserCache_Authenticate lib order1 order2 kfuc u1 challenge sshSig)) =
     fst (snd (keysFileUserCache_Authenticate lib order1 order2 kfuc u2 challenge sshSig))"
  by (simp add: ldapUserCache_Authenticate_def ldapUserCache_verify_def
        keysFileUserCache_Authenticate_def keysFileUserCache_verify_def case_prod_beta
        split: option.split outcome.split)

theorem Authenticate_ignores_username_witness:
  "fst (ldapUserCache_Authenticate ex_lib [''alice''] []
          (ex_luc [''alice'' \<mapsto> ex_user ''alice'' [''AAAA1'']] ex_server_down)
          ''mallory'' ''c'' (''AAAA1'', ''c'')) = (Some (ex_user ''alice'' [''AAAA1'']), None) \<and>
   fst (keysFileUserCache_Authenticate ex_lib [''alice''] []
          (ex_kfuc [''alice'' \<mapsto> ex_user ''alice'' [''AAAA1'']] ex_keysFile_unreadable)
          ''mallory'' ''c'' (''AAAA1'', ''c'')) = Returns (Some (ex_user ''alice'' [''AAAA1'']), None)"
proof -
  let ?luc = "ex_luc [''alice'' \<mapsto> ex_user ''alice'' [''AAAA1'']] ex_server_down"
  let ?kf = "ex_kfuc [''alice'' \<mapsto> ex_user ''alice'' [''AAAA1'']] ex_keysFile_unreadable"
  have a: "fst (ldapUserCache_Authenticate ex_lib [''alice''] [] ?luc ''alice'' ''c'' (''AAAA1'', ''c'')) =
             (Some (ex_user ''alice'' [''AAAA1'']), None)"
    by (simp add: ex_defs model_defs)
  have b: "fst (keysFileUserCache_Authenticate ex_lib [''alice''] [] ?kf ''alice'' ''c'' (''AAAA1'', ''c'')) =
             Returns (Some (ex_user ''alice'' [''AAAA1'']), None)"
    by (simp add: ex_defs model_defs)
  from Authenticate_ignores_username
         [where lib = ex_lib and ?order1.0 = "[''alice'']" and ?order2.0 = "[]" and luc = ?luc
            and kfuc = ?kf and ?u1.0 = "''mallory''" and ?u2.0 = "''alice''"
            and challenge = "''c''" and sshSig = "(''AAAA1'', ''c'')"] a b
  show ?thesis by simp
qed

subsection \<open>Updates that fail\<close>

text \<open>
  C4: in both caches, when \<^verbatim>\<open>Update\<close> returns an error, the map that \<^verbatim>\<open>Users()\<close> gives
  afterwards is the map it gave before the call.
\<close>

theorem failed_Update_keeps_Users:
  "(\<forall>err. fst (ldapUserCache_Update lib luc) = Some err \<longrightarrow>
      ldapUserCache_Users (fst (snd (ldapUserCache_Update lib luc))) = ldapUserCache_Users luc) \<and>
   (\<forall>err. fst (keysFileUserCache_Update lib kfuc) = Returns (Some err) \<longrightarrow>
      keysFileUserCache_Users (fst (snd (keysFileUserCache_Update lib kfuc))) =
        keysFileUserCache_Users kfuc)"
  using ldapUserCache_Update_error_users [of lib luc]
        keysFileUserCache_Update_failed_users [of lib kfuc]
  by (simp add: ldapUserCache_Users_def keysFileUserCache_Users_def)

theorem failed_Update_keeps_Users_witness:
  "fst (ldapUserCache_Update ex_lib
          (ex_luc [''alice'' \<mapsto> ex_user ''alice'' [''AAAA1'']] ex_server_down)) =
     Some (Error ''down'') \<and>
   ldapUserCache_Users (fst (snd (ldapUserCache_Update ex_lib
          (ex_luc [''alice'' \<mapsto> ex_user ''alice'' [''AAAA1'']] ex_server_down)))) =
     ldapUserCache_Users (ex_luc [''alice'' \<mapsto> ex_user ''alice'' [''AAAA1'']] ex_server_down) \<and>
   fst (ldapUserCache_Update ex_lib
          (ex_luc [''alice'' \<mapsto> ex_user ''alice'' [''AAAA1'']]
             (ex_server_no_users [ex_group ''g1'' [''A'']]))) =
     Some (Error ''timeout'') \<and>
   ldapUserCache_Users (fst (snd (ldapUserCache_Update ex_lib
          (ex_luc [''alice'' \<mapsto> ex_user ''alice'' [''AAAA1'']]
             (ex_server_no_users [ex_group ''g1'' [''A'']]))))) =
     ldapUserCache_Users (ex_luc [''alice'' \<mapsto> ex_user ''alice'' [''AAAA1'']]
             (ex_server_no_users [ex_group ''g1'' [''A'']])) \<and>
   fst (keysFileUserCache_Update ex_lib
          (ex_kfuc [''alice'' \<mapsto> ex_user ''alice'' [''AAAA1'']] ex_keysFile_unreadable)) =
     Returns (Some (Error ''unreadable'')) \<and>
   keysFileUserCache_Users (fst (snd (keysFileUserCache_Update ex_lib
          (ex_kfuc [''alice'' \<mapsto> ex_user ''alice'' [''AAAA1'']] ex_keysFile_unreadable)))) =
     keysFileUserCache_Users
       (ex_kfuc [''alice'' \<mapsto> ex_user ''alice'' [''AAAA1'']] ex_keysFile_unreadable)"
proof -
  let ?luc = "ex_luc [''alice'' \<mapsto> ex_user ''alice'' [''AAAA1'']] ex_server_down"
  let ?luc2 = "ex_luc [''alice'' \<mapsto> ex_user ''alice'' [''AAAA1'']]
                 (ex_server_no_users [ex_group ''g1'' [''A'']])"
  let ?kf = "ex_kfuc [''alice'' \<mapsto> ex_user ''alice'' [''AAAA1'']] ex_keysFile_unreadable"
  have a: "fst (ldapUserCache_Update ex_lib ?luc) = Some (Error ''down'')"
    by (simp add: ex_defs model_defs)
  have a2: "fst (ldapUserCache_Update ex_lib ?luc2) = Some (Error ''timeout'')"
    by (simp add: ex_defs model_defs)
  have b: "fst (keysFileUserCache_Update ex_lib ?kf) = Returns (Some (Error ''unreadable''))"
    by (simp add: ex_defs model_defs)
  from failed_Update_keeps_Users [where lib = ex_lib and luc = ?luc and kfuc = ?kf]
       failed_Update_keeps_Users [where lib = ex_lib and luc = ?luc2 and kfuc = ?kf] a a2 b
  show ?thesis by blast
qed

subsection \<open>What a successful update stores\<close>

text \<open>
  C3 (LDAP cache): the user \<open>bob\<close> is in the cache before the update and not among the
  entries that the user search of the update answers with, the update returns no error,
  and \<open>bob\<close> is still in the map that \<^verbatim>\<open>Users()\<close> gives afterwards: lines 116 to 151 write
  into the map that is there and never start from a new one.
\<close>

theorem ldapUserCache_Update_keeps_removed_user:
  "fst (ldapUserCache_Update ex_lib
          (ex_luc [''bob'' \<mapsto> ex_user ''bob'' [''AAAA2'']]
             (ex_server [] [ex_entry ''alice'' [''AAAA1''] []]))) = None \<and>
   ldapUserCache_Users (fst (snd (ldapUserCache_Update ex_lib
          (ex_luc [''bob'' \<mapsto> ex_user ''bob'' [''AAAA2'']]
             (ex_server [] [ex_entry ''alice'' [''AAAA1''] []]))))) ''bob'' =
     Some (ex_user ''bob'' [''AAAA2''])"
proof -
  let ?luc = "ex_luc [''bob'' \<mapsto> ex_user ''bob'' [''AAAA2'']]
                (ex_server [] [ex_entry ''alice'' [''AAAA1''] []])"
  have es: "ldapUserEntries ?luc = Some [ex_entry ''alice'' [''AAAA1''] []]"
    by simp
  have no: "lastEntryOf ?luc ''bob'' [ex_entry ''alice'' [''AAAA1''] []] = None"
    by (simp add: lastEntryOf_def ex_defs GetAttributeValue_def GetAttributeValues_def)
  have "luc_users (fst (snd (ldapUserCache_Update ex_lib ?luc))) ''bob'' = luc_users ?luc ''bob''"
    using ldapUserCache_Update_ok(2) [OF es, of ex_lib "''bob''"] no by simp
  then show ?thesis
    using ldapUserCache_Update_ok(1) [OF es, of ex_lib]
    by (simp add: ldapUserCache_Users_def) (simp add: ex_luc_def)
qed

text \<open>
  C6 (LDAP cache with role support): with the groups \<open>g1\<close> and \<open>g2\<close> holding the ARNs
  \<open>A, B\<close> and \<open>B, C\<close>, a user who is a member of both ends, after an update that returns
  no error, with the ARNs \<open>A, B, B, C\<close>, in which \<open>B\<close> occurs twice: lines 140 to 143 append
  the ARNs of every group and pass over none, where lines 289 to 293 of the keys-file
  update pass over every role already seen for the user.
\<close>

theorem ldap_ARNs_not_deduplicated:
  "map_option ARNs (luc_users (fst (snd (ldapUserCache_Update ex_lib
       (ex_luc Map.empty
          (ex_server [ex_group ''g1'' [''A'', ''B''], ex_group ''g2'' [''B'', ''C'']]
                     [ex_entry ''alice'' [''AAAA1''] [''g1'', ''g2'']]))))) ''alice'') =
     Some [''A'', ''B'', ''B'', ''C''] \<and>
   \<not> distinct (the (map_option ARNs (luc_users (fst (snd (ldapUserCache_Update ex_lib
       (ex_luc Map.empty
          (ex_server [ex_group ''g1'' [''A'', ''B''], ex_group ''g2'' [''B'', ''C'']]
                     [ex_entry ''alice'' [''AAAA1''] [''g1'', ''g2'']]))))) ''alice'')))"
proof -
  have a: "map_option ARNs (luc_users (fst (snd (ldapUserCache_Update ex_lib
       (ex_luc Map.empty
          (ex_server [ex_group ''g1'' [''A'', ''B''], ex_group ''g2'' [''B'', ''C'']]
                     [ex_entry ''alice'' [''AAAA1''] [''g1'', ''g2'']]))))) ''alice'') =
     Some [''A'', ''B'', ''B'', ''C'']"
    by (simp add: ex_defs model_defs)
  show ?thesis unfolding a by simp
qed

text \<open>
  What lines 140 to 143 compute in general, and the part of the group resolution that the
  code does meet: after an update of the LDAP cache with role support whose searches
  succeed, the ARNs of a user are the ARNs of the groups that the \<open>memberOf\<close> values of the
  user's entry name, appended group after group in the order of these values, where a
  value that the group map does not hold adds nothing and raises no error. The set of the
  user's ARNs is therefore the union of the groups' ARNs; only the repetitions are wrong.
\<close>

theorem ldap_ARNs_append_groups:
  assumes "luc_enableServerRoles luc"
    and "ldapUserEntries luc = Some es"
    and "lastEntryOf luc u es = Some e"
  shows "fst (ldapUserCache_Update lib luc) = None \<and>
         map_option ARNs (luc_users (fst (snd (ldapUserCache_Update lib luc))) u) =
           Some (concat (map (groupARNs (luc_groups (fst (snd (ldapUserCache_Update lib luc)))))
                          (GetAttributeValues e ''memberOf''))) \<and>
         map_option (\<lambda>user. set (ARNs user)) (luc_users (fst (snd (ldapUserCache_Update lib luc))) u) =
           Some (\<Union>g\<in>set (GetAttributeValues e ''memberOf'').
                    set (groupARNs (luc_groups (fst (snd (ldapUserCache_Update lib luc)))) g)) \<and>
         (\<forall>g. luc_groups (fst (snd (ldapUserCache_Update lib luc))) g = None \<longrightarrow>
              groupARNs (luc_groups (fst (snd (ldapUserCache_Update lib luc)))) g = [])"
proof -
  let ?luc' = "fst (snd (ldapUserCache_Update lib luc))"
  have en: "luc_enableServerRoles ?luc'"
    using assms(1) by (simp add: ldapUserCache_Update_enableServerRoles)
  have u: "luc_users ?luc' u = Some (ldapUserOf lib ?luc' e)"
    using ldapUserCache_Update_ok(2) [OF assms(2), of lib u] assms(3) by simp
  have a: "ARNs (ldapUserOf lib ?luc' e) =
             concat (map (groupARNs (luc_groups ?luc')) (GetAttributeValues e ''memberOf''))"
    using en by (simp add: ldapUserOf_def)
  show ?thesis
    using ldapUserCache_Update_ok(1) [OF assms(2), of lib]
    by (simp add: u a groupARNs_def)
qed

theorem ldap_ARNs_append_groups_witness:
  "luc_enableServerRoles (ex_luc Map.empty
          (ex_server [ex_group ''g1'' [''A'', ''B''], ex_group ''g2'' [''B'', ''C'']]
                     [ex_entry ''alice'' [''AAAA1''] [''g1'', ''g3'', ''g2'']])) \<and>
   map_option ARNs (luc_users (fst (snd (ldapUserCache_Update ex_lib
       (ex_luc Map.empty
          (ex_server [ex_group ''g1'' [''A'', ''B''], ex_group ''g2'' [''B'', ''C'']]
                     [ex_entry ''alice'' [''AAAA1''] [''g1'', ''g3'', ''g2'']]))))) ''alice'') =
     Some [''A'', ''B'', ''B'', ''C''] \<and>
   map_option (\<lambda>user. set (ARNs user)) (luc_users (fst (snd (ldapUserCache_Update ex_lib
       (ex_luc Map.empty
          (ex_server [ex_group ''g1'' [''A'', ''B''], ex_group ''g2'' [''B'', ''C'']]
                     [ex_entry ''alice'' [''AAAA1''] [''g1'', ''g3'', ''g2'']]))))) ''alice'') =
     Some {''A'', ''B'', ''C''}"
proof -
  let ?e = "ex_entry ''alice'' [''AAAA1''] [''g1'', ''g3'', ''g2'']"
  let ?luc = "ex_luc Map.empty
          (ex_server [ex_group ''g1'' [''A'', ''B''], ex_group ''g2'' [''B'', ''C'']] [?e])"
  let ?luc' = "fst (snd (ldapUserCache_Update ex_lib ?luc))"
  have en: "luc_enableServerRoles ?luc"
    by (simp add: ex_luc_def)
  have es: "ldapUserEntries ?luc = Some [?e]"
    by simp
  have la: "lastEntryOf ?luc ''alice'' [?e] = Some ?e"
    by (simp add: lastEntryOf_def ex_defs GetAttributeValue_def GetAttributeValues_def)
  have gr: "luc_groups ?luc' = [''g1'' \<mapsto> [''A'', ''B''], ''g2'' \<mapsto> [''B'', ''C'']]"
    by (simp add: ex_defs model_defs)
  have mo: "GetAttributeValues ?e ''memberOf'' = [''g1'', ''g3'', ''g2'']"
    by (simp add: ex_defs GetAttributeValues_def)
  note t = ldap_ARNs_append_groups [OF en es la, of ex_lib]
  have a: "map_option ARNs (luc_users ?luc' ''alice'') = Some [''A'', ''B'', ''B'', ''C'']"
    using t unfolding gr mo by (simp add: groupARNs_def)
  have b: "map_option (\<lambda>user. set (ARNs user)) (luc_users ?luc' ''alice'') = Some {''A'', ''B'', ''C''}"
    using t unfolding gr mo by (auto simp: groupARNs_def)
  from en a b show ?thesis by blast
qed

text \<open>
  C7: in the keys-file cache with role support, after an update that reads records on which
  no type assertion fails, no user has an ARN twice, and the ARNs of a user are exactly the
  roles of the records of that user whose key parses. So two records with the same user
  name and overlapping roles give a user with each of the roles once.
\<close>

theorem keysFile_roles_once:
  assumes "kfuc_enableServerRoles kfuc"
    and "keysFileRecords kfuc = Some recs"
    and "list_all (keysWellTyped lib kfuc) recs"
  shows "fst (keysFileUserCache_Update lib kfuc) = Returns None \<and>
         (\<forall>u user. kfuc_users (fst (snd (keysFileUserCache_Update lib kfuc))) u = Some user \<longrightarrow>
            distinct (ARNs user) \<and>
            set (ARNs user) =
              (\<Union>rec\<in>{rec \<in> set recs. usable lib kfuc u rec}. set (recRoles kfuc (snd rec))))"
proof -
  let ?users' = "kfuc_users (fst (snd (keysFileUserCache_Update lib kfuc)))"
  have "distinct (ARNs user) \<and>
        set (ARNs user) = (\<Union>rec\<in>{rec \<in> set recs. usable lib kfuc u rec}. set (recRoles kfuc (snd rec)))"
    if "?users' u = Some user" for u user
    using that assms(1)
      keysFileUserCache_Update_effect(3) [OF assms(2) assms(3), of u]
      keysFileUserCache_Update_effect(4) [OF assms(2) assms(3) that]
    by (simp add: userARNsIn_def)
  then show ?thesis
    using keysFileUserCache_Update_ok(1) [OF assms(2) assms(3)] by blast
qed

theorem keysFile_roles_once_witness:
  "kfuc_enableServerRoles
     (ex_kfuc Map.empty (ex_keysFile [ex_rec ''AAAA1'' ''alice'' ''dflt'' [''r1'', ''r2''],
                                      ex_rec ''AAAA2'' ''alice'' ''dflt'' [''r2'', ''r3'']])) \<and>
   fst (keysFileUserCache_Update ex_lib
     (ex_kfuc Map.empty (ex_keysFile [ex_rec ''AAAA1'' ''alice'' ''dflt'' [''r1'', ''r2''],
                                      ex_rec ''AAAA2'' ''alice'' ''dflt'' [''r2'', ''r3'']]))) =
     Returns None \<and>
   map_option ARNs (kfuc_users (fst (snd (keysFileUserCache_Update ex_lib
     (ex_kfuc Map.empty (ex_keysFile [ex_rec ''AAAA1'' ''alice'' ''dflt'' [''r1'', ''r2''],
                                      ex_rec ''AAAA2'' ''alice'' ''dflt'' [''r2'', ''r3'']]))))) ''alice'') =
     Some [''r1'', ''r2'', ''r3''] \<and>
   map_option (\<lambda>user. distinct (ARNs user)) (kfuc_users (fst (snd (keysFileUserCache_Update ex_lib
     (ex_kfuc Map.empty (ex_keysFile [ex_rec ''AAAA1'' ''alice'' ''dflt'' [''r1'', ''r2''],
                                      ex_rec ''AAAA2'' ''alice'' ''dflt'' [''r2'', ''r3'']]))))) ''alice'') =
     Some True"
proof -
  let ?recs = "[ex_rec ''AAAA1'' ''alice'' ''dflt'' [''r1'', ''r2''],
                ex_rec ''AAAA2'' ''alice'' ''dflt'' [''r2'', ''r3'']]"
  let ?kfuc = "ex_kfuc Map.empty (ex_keysFile ?recs)"
  let ?users' = "kfuc_users (fst (snd (keysFileUserCache_Update ex_lib ?kfuc)))"
  have en: "kfuc_enableServerRoles ?kfuc"
    by (simp add: ex_kfuc_def)
  have rs: "keysFileRecords ?kfuc = Some ?recs"
    by simp
  have wt: "list_all (keysWellTyped ex_lib ?kfuc) ?recs"
    by simp
  note t = keysFile_roles_once [OF en rs wt]
  have a: "map_option ARNs (?users' ''alice'') = Some [''r1'', ''r2'', ''r3'']"
    by (simp add: ex_defs model_defs)
  then obtain user where u: "?users' ''alice'' = Some user"
    by blast
  with t have "distinct (ARNs user)"
    by blast
  with u have d: "map_option (\<lambda>user. distinct (ARNs user)) (?users' ''alice'') = Some True"
    by simp
  from en t a d show ?thesis by blast
qed

text \<open>
  C8: both updates parse a key value as raw key material in base64 first and, when that
  fails, as a line of an authorized-keys file. A value that parses in neither form is
  logged with a warning and left out, and the update goes on: when the searches of the
  LDAP update succeed it returns no error, every entry's unparseable values are logged,
  and the keys of a user are exactly the values of the user's entry that parse, in their
  order; when the keys file is read and no type assertion fails on its records, the
  keys-file update returns no error, every record with an unparseable key is logged, and
  the keys of a user are exactly the keys that parse of the records of that user, in the
  order of the records. One unparseable value among two valid ones leaves the two valid keys.
\<close>

theorem unparseable_keys_are_skipped:
  "parseKey lib value =
     (case ParsePublicKey lib (DecodeString lib value) of
        Some key \<Rightarrow> Some key
      | None \<Rightarrow> ParseAuthorizedKey lib value) \<and>
   (ldapUserEntries luc = Some es \<longrightarrow>
      fst (ldapUserCache_Update lib luc) = None \<and>
      (\<forall>u e. lastEntryOf luc u es = Some e \<longrightarrow>
         map_option SSHKeys (luc_users (fst (snd (ldapUserCache_Update lib luc))) u) =
           Some (List.map_filter (parseKey lib) (GetAttributeValues e ''sshPublicKey''))) \<and>
      (\<forall>e\<in>set es. \<forall>v\<in>set (GetAttributeValues e ''sshPublicKey''). parseKey lib v = None \<longrightarrow>
         keyWarningLDAP (GetAttributeValue e (luc_userAttr luc)) v
           \<in> set (snd (snd (ldapUserCache_Update lib luc))))) \<and>
   (keysFileRecords kfuc = Some recs \<and> list_all (keysWellTyped lib kfuc) recs \<longrightarrow>
      fst (keysFileUserCache_Update lib kfuc) = Returns None \<and>
      (\<forall>u. userKeysIn (kfuc_users (fst (snd (keysFileUserCache_Update lib kfuc)))) u =
             List.map_filter (recKey lib kfuc u) recs) \<and>
      (\<forall>u. kfuc_users (fst (snd (keysFileUserCache_Update lib kfuc))) u = None \<longleftrightarrow>
             List.map_filter (recKey lib kfuc u) recs = []) \<and>
      (\<forall>(key, userData)\<in>set recs. \<forall>n. parseKey lib key = None \<and> recName kfuc userData = Some n \<longrightarrow>
         keyWarningFile n key \<in> set (snd (snd (keysFileUserCache_Update lib kfuc)))))"
proof -
  have p: "parseKey lib value =
     (case ParsePublicKey lib (DecodeString lib value) of
        Some key \<Rightarrow> Some key
      | None \<Rightarrow> ParseAuthorizedKey lib value)"
    by (simp add: parseKey_def)
  have l: "fst (ldapUserCache_Update lib luc) = None \<and>
      (\<forall>u e. lastEntryOf luc u es = Some e \<longrightarrow>
         map_option SSHKeys (luc_users (fst (snd (ldapUserCache_Update lib luc))) u) =
           Some (List.map_filter (parseKey lib) (GetAttributeValues e ''sshPublicKey''))) \<and>
      (\<forall>e\<in>set es. \<forall>v\<in>set (GetAttributeValues e ''sshPublicKey''). parseKey lib v = None \<longrightarrow>
         keyWarningLDAP (GetAttributeValue e (luc_userAttr luc)) v
           \<in> set (snd (snd (ldapUserCache_Update lib luc))))"
    if es: "ldapUserEntries luc = Some es"
  proof (intro conjI allI impI ballI)
    show "fst (ldapUserCache_Update lib luc) = None"
      by (rule ldapUserCache_Update_ok(1) [OF es])
  next
    fix u e
    assume "lastEntryOf luc u es = Some e"
    then show "map_option SSHKeys (luc_users (fst (snd (ldapUserCache_Update lib luc))) u) =
           Some (List.map_filter (parseKey lib) (GetAttributeValues e ''sshPublicKey''))"
      using ldapUserCache_Update_ok(2) [OF es, of lib u] by (simp add: ldapUserOf_def)
  next
    fix e v
    assume "e \<in> set es" "v \<in> set (GetAttributeValues e ''sshPublicKey'')" "parseKey lib v = None"
    then show "keyWarningLDAP (GetAttributeValue e (luc_userAttr luc)) v
           \<in> set (snd (snd (ldapUserCache_Update lib luc)))"
      by (rule ldapUserCache_Update_ok(3) [OF es])
  qed
  have k: "fst (keysFileUserCache_Update lib kfuc) = Returns None \<and>
      (\<forall>u. userKeysIn (kfuc_users (fst (snd (keysFileUserCache_Update lib kfuc)))) u =
             List.map_filter (recKey lib kfuc u) recs) \<and>
      (\<forall>u. kfuc_users (fst (snd (keysFileUserCache_Update lib kfuc))) u = None \<longleftrightarrow>
             List.map_filter (recKey lib kfuc u) recs = []) \<and>
      (\<forall>(key, userData)\<in>set recs. \<forall>n. parseKey lib key = None \<and> recName kfuc userData = Some n \<longrightarrow>
         keyWarningFile n key \<in> set (snd (snd (keysFileUserCache_Update lib kfuc))))"
    if rs: "keysFileRecords kfuc = Some recs" and wt: "list_all (keysWellTyped lib kfuc) recs"
  proof (intro conjI allI)
    show "fst (keysFileUserCache_Update lib kfuc) = Returns None"
      by (rule keysFileUserCache_Update_ok(1) [OF rs wt])
  next
    fix u
    show "userKeysIn (kfuc_users (fst (snd (keysFileUserCache_Update lib kfuc)))) u =
             List.map_filter (recKey lib kfuc u) recs"
      by (rule keysFileUserCache_Update_effect(1) [OF rs wt])
  next
    fix u
    show "kfuc_users (fst (snd (keysFileUserCache_Update lib kfuc))) u = None \<longleftrightarrow>
             List.map_filter (recKey lib kfuc u) recs = []"
      by (rule keysFileUserCache_Update_effect(2) [OF rs wt])
  next
    show "\<forall>(key, userData)\<in>set recs. \<forall>n. parseKey lib key = None \<and> recName kfuc userData = Some n \<longrightarrow>
         keyWarningFile n key \<in> set (snd (snd (keysFileUserCache_Update lib kfuc)))"
    proof (intro ballI, clarify)
      fix key userData n
      assume "(key, userData) \<in> set recs" "parseKey lib key = None" "recName kfuc userData = Some n"
      from keysLoop_warns [OF wt seenInv_empty this]
      show "keyWarningFile n key \<in> set (snd (snd (keysFileUserCache_Update lib kfuc)))"
        using keysFileUserCache_Update_ok(3) [OF rs wt] by blast
    qed
  qed
  from p l k show ?thesis by blast
qed

theorem unparseable_keys_are_skipped_witness:
  "ldapUserEntries
     (ex_luc Map.empty (ex_server [] [ex_entry ''alice'' [''AAAA1'', ''bad'', ''ssh-rsa K2''] []])) =
     Some [ex_entry ''alice'' [''AAAA1'', ''bad'', ''ssh-rsa K2''] []] \<and>
   fst (ldapUserCache_Update ex_lib
     (ex_luc Map.empty (ex_server [] [ex_entry ''alice'' [''AAAA1'', ''bad'', ''ssh-rsa K2''] []]))) = None \<and>
   map_option SSHKeys (luc_users (fst (snd (ldapUserCache_Update ex_lib
     (ex_luc Map.empty (ex_server [] [ex_entry ''alice'' [''AAAA1'', ''bad'', ''ssh-rsa K2''] []]))))) ''alice'') =
     Some [''AAAA1'', ''K2''] \<and>
   keyWarningLDAP ''alice'' ''bad'' \<in> set (snd (snd (ldapUserCache_Update ex_lib
     (ex_luc Map.empty (ex_server [] [ex_entry ''alice'' [''AAAA1'', ''bad'', ''ssh-rsa K2''] []]))))) \<and>
   keysFileRecords
     (ex_kfuc Map.empty (ex_keysFile [ex_rec ''AAAA1'' ''alice'' ''dflt'' [], ex_rec ''bad'' ''alice'' ''dflt'' [],
                                      ex_rec ''ssh-rsa K2'' ''alice'' ''dflt'' []])) =
     Some [ex_rec ''AAAA1'' ''alice'' ''dflt'' [], ex_rec ''bad'' ''alice'' ''dflt'' [],
           ex_rec ''ssh-rsa K2'' ''alice'' ''dflt'' []] \<and>
   fst (keysFileUserCache_Update ex_lib
     (ex_kfuc Map.empty (ex_keysFile [ex_rec ''AAAA1'' ''alice'' ''dflt'' [], ex_rec ''bad'' ''alice'' ''dflt'' [],
                                      ex_rec ''ssh-rsa K2'' ''alice'' ''dflt'' []]))) = Returns None \<and>
   userKeysIn (kfuc_users (fst (snd (keysFileUserCache_Update ex_lib
     (ex_kfuc Map.empty (ex_keysFile [ex_rec ''AAAA1'' ''alice'' ''dflt'' [], ex_rec ''bad'' ''alice'' ''dflt'' [],
                                      ex_rec ''ssh-rsa K2'' ''alice'' ''dflt'' []])))))) ''alice'' =
     [''AAAA1'', ''K2''] \<and>
   keyWarningFile ''alice'' ''bad'' \<in> set (snd (snd (keysFileUserCache_Update ex_lib
     (ex_kfuc Map.empty (ex_keysFile [ex_rec ''AAAA1'' ''alice'' ''dflt'' [], ex_rec ''bad'' ''alice'' ''dflt'' [],
                                      ex_rec ''ssh-rsa K2'' ''alice'' ''dflt'' []])))))"
proof -
  let ?e = "ex_entry ''alice'' [''AAAA1'', ''bad'', ''ssh-rsa K2''] []"
  let ?luc = "ex_luc Map.empty (ex_server [] [?e])"
  let ?recs = "[ex_rec ''AAAA1'' ''alice'' ''dflt'' [], ex_rec ''bad'' ''alice'' ''dflt'' [],
                ex_rec ''ssh-rsa K2'' ''alice'' ''dflt'' []]"
  let ?kfuc = "ex_kfuc Map.empty (ex_keysFile ?recs)"
  note t = unparseable_keys_are_skipped
             [where lib = ex_lib and luc = ?luc and es = "[?e]" and kfuc = ?kfuc and recs = ?recs]
  have es: "ldapUserEntries ?luc = Some [?e]"
    by simp
  have la: "lastEntryOf ?luc ''alice'' [?e] = Some ?e"
    by (simp add: lastEntryOf_def ex_defs GetAttributeValue_def GetAttributeValues_def)
  have vs: "GetAttributeValues ?e ''sshPublicKey'' = [''AAAA1'', ''bad'', ''ssh-rsa K2'']"
    by (simp add: ex_defs GetAttributeValues_def)
  have nm: "GetAttributeValue ?e (luc_userAttr ?luc) = ''alice''"
    by (simp add: ex_defs GetAttributeValue_def GetAttributeValues_def)
  have p1: "parseKey ex_lib ''AAAA1'' = Some ''AAAA1''"
    and p2: "parseKey ex_lib ''bad'' = None"
    and p3: "parseKey ex_lib ''ssh-rsa K2'' = Some ''K2''"
    by (simp_all add: parseKey_def ex_lib_def)
  have a: "fst (ldapUserCache_Update ex_lib ?luc) = None"
    using t es by blast
  have "map_option SSHKeys (luc_users (fst (snd (ldapUserCache_Update ex_lib ?luc))) ''alice'') =
          Some (List.map_filter (parseKey ex_lib) (GetAttributeValues ?e ''sshPublicKey''))"
    using t es la by blast
  then have b: "map_option SSHKeys (luc_users (fst (snd (ldapUserCache_Update ex_lib ?luc))) ''alice'') =
          Some [''AAAA1'', ''K2'']"
    unfolding vs by simp
  have "keyWarningLDAP (GetAttributeValue ?e (luc_userAttr ?luc)) ''bad''
          \<in> set (snd (snd (ldapUserCache_Update ex_lib ?luc)))"
    using t es p2 vs by simp
  then have c: "keyWarningLDAP ''alice'' ''bad'' \<in> set (snd (snd (ldapUserCache_Update ex_lib ?luc)))"
    unfolding nm .
  have rs: "keysFileRecords ?kfuc = Some ?recs"
    by simp
  have wt: "list_all (keysWellTyped ex_lib ?kfuc) ?recs"
    by simp
  have rn: "\<And>key role roles. recName ?kfuc (snd (ex_rec key ''alice'' role roles)) = Some ''alice''"
    by (simp add: recName_def assertString_def ex_kfuc_def ex_rec_def)
  have d: "fst (keysFileUserCache_Update ex_lib ?kfuc) = Returns None"
    using t rs wt by blast
  have "userKeysIn (kfuc_users (fst (snd (keysFileUserCache_Update ex_lib ?kfuc)))) ''alice'' =
          List.map_filter (recKey ex_lib ?kfuc ''alice'') ?recs"
    using t rs wt by blast
  then have e: "userKeysIn (kfuc_users (fst (snd (keysFileUserCache_Update ex_lib ?kfuc)))) ''alice'' =
          [''AAAA1'', ''K2'']"
    by simp
  have w: "\<forall>(key, userData)\<in>set ?recs. \<forall>n. parseKey ex_lib key = None \<and> recName ?kfuc userData = Some n \<longrightarrow>
         keyWarningFile n key \<in> set (snd (snd (keysFileUserCache_Update ex_lib ?kfuc)))"
    using t rs wt by blast
  have f: "keyWarningFile ''alice'' ''bad'' \<in> set (snd (snd (keysFileUserCache_Update ex_lib ?kfuc)))"
  proof -
    have "(''bad'', snd (ex_rec ''bad'' ''alice'' ''dflt'' [])) \<in> set ?recs"
      by (simp add: ex_rec_def)
    with w show ?thesis using p2 rn [of "''bad''" "''dflt''" "[]"] by blast
  qed
  from es a b c rs d e f show ?thesis by blast
qed

text \<open>
  C10: in the keys-file cache, after an update that reads records on which no type
  assertion fails, the default role of a user is the one resolved from the first record,
  in the order in which the records are visited, that has the user's name and a key that
  parses: that record creates the user that is stored, and no later record changes the
  default role. (A record whose key does not parse is left before the user is stored.)
  So when two records of one user give different default roles, the stored default role
  depends on the order of the visit.
\<close>

theorem keysFile_DefaultRole_of_first_record:
  assumes "keysFileRecords kfuc = Some recs"
    and "list_all (keysWellTyped lib kfuc) recs"
  shows "fst (keysFileUserCache_Update lib kfuc) = Returns None \<and>
         (\<forall>u user. kfuc_users (fst (snd (keysFileUserCache_Update lib kfuc))) u = Some user \<longrightarrow>
            (\<exists>rec. List.find (usable lib kfuc u) recs = Some rec \<and>
                   DefaultRole user = recDefaultRole kfuc (snd rec)))"
proof -
  let ?users' = "kfuc_users (fst (snd (keysFileUserCache_Update lib kfuc)))"
  have "\<exists>rec. List.find (usable lib kfuc u) recs = Some rec \<and>
              DefaultRole user = recDefaultRole kfuc (snd rec)"
    if u: "?users' u = Some user" for u user
  proof -
    from keysFileUserCache_Update_effect(2) [OF assms, of u] u
    have "List.map_filter (recKey lib kfuc u) recs \<noteq> []"
      by simp
    then obtain rec where "rec \<in> set recs" and "recKey lib kfuc u rec \<noteq> None"
      by (auto simp: List.map_filter_def filter_empty_conv)
    then have "\<exists>rec\<in>set recs. usable lib kfuc u rec"
      by (auto simp: usable_def recKey_def split: if_splits)
    then obtain first where f: "List.find (usable lib kfuc u) recs = Some first"
      by (cases "List.find (usable lib kfuc u) recs") (auto simp: find_None_iff)
    with keysFileUserCache_Update_effect(5) [OF assms u] show ?thesis
      by simp
  qed
  then show ?thesis
    using keysFileUserCache_Update_ok(1) [OF assms] by blast
qed

theorem keysFile_DefaultRole_of_first_record_witness:
  "fst (keysFileUserCache_Update ex_lib
     (ex_kfuc Map.empty (ex_keysFile [ex_rec ''AAAA1'' ''alice'' ''dev'' [],
                                      ex_rec ''AAAA2'' ''alice'' ''ops'' []]))) = Returns None \<and>
   map_option DefaultRole (kfuc_users (fst (snd (keysFileUserCache_Update ex_lib
     (ex_kfuc Map.empty (ex_keysFile [ex_rec ''AAAA1'' ''alice'' ''dev'' [],
                                      ex_rec ''AAAA2'' ''alice'' ''ops'' []]))))) ''alice'') =
     Some ''dev'' \<and>
   map_option DefaultRole (kfuc_users (fst (snd (keysFileUserCache_Update ex_lib
     (ex_kfuc Map.empty (ex_keysFile [ex_rec ''AAAA2'' ''alice'' ''ops'' [],
                                      ex_rec ''AAAA1'' ''alice'' ''dev'' []]))))) ''alice'') =
     Some ''ops'' \<and>
   map_option DefaultRole (kfuc_users (fst (snd (keysFileUserCache_Update ex_lib
     (ex_kfuc Map.empty (ex_keysFile [ex_rec ''bad'' ''alice'' ''ops'' [],
                                      ex_rec ''AAAA1'' ''alice'' ''dev'' []]))))) ''alice'') =
     Some ''dev''"
proof -
  let ?r1 = "ex_rec ''AAAA1'' ''alice'' ''dev'' []"
  let ?r2 = "ex_rec ''AAAA2'' ''alice'' ''ops'' []"
  let ?r3 = "ex_rec ''bad'' ''alice'' ''ops'' []"
  have first: "map_option DefaultRole (kfuc_users (fst (snd (keysFileUserCache_Update ex_lib
                  (ex_kfuc Map.empty (ex_keysFile recs))))) ''alice'') = Some role"
    if wt: "list_all (keysWellTyped ex_lib (ex_kfuc Map.empty (ex_keysFile recs))) recs"
      and f: "List.find (usable ex_lib (ex_kfuc Map.empty (ex_keysFile recs)) ''alice'') recs = Some rec"
      and r: "recDefaultRole (ex_kfuc Map.empty (ex_keysFile recs)) (snd rec) = role"
    for recs rec role
  proof -
    let ?kfuc = "ex_kfuc Map.empty (ex_keysFile recs) :: (string, unit) keysFileUserCache"
    have rs: "keysFileRecords ?kfuc = Some recs"
      by simp
    note t = keysFile_DefaultRole_of_first_record [OF rs wt]
    have "List.map_filter (recKey ex_lib ?kfuc ''alice'') recs \<noteq> []"
      using f by (auto simp: find_Some_iff List.map_filter_def filter_empty_conv usable_def recKey_def)
    then obtain user where u: "kfuc_users (fst (snd (keysFileUserCache_Update ex_lib ?kfuc))) ''alice'' = Some user"
      using keysFileUserCache_Update_effect(2) [OF rs wt, of "''alice''"] by auto
    from t u obtain rec' where f': "List.find (usable ex_lib ?kfuc ''alice'') recs = Some rec'"
      and d: "DefaultRole user = recDefaultRole ?kfuc (snd rec')"
      by blast
    from f f' have "rec' = rec" by simp
    with d r have "DefaultRole user = role" by simp
    with u show ?thesis by simp
  qed
  have a: "fst (keysFileUserCache_Update ex_lib (ex_kfuc Map.empty (ex_keysFile [?r1, ?r2]))) = Returns None"
    using keysFile_DefaultRole_of_first_record
            [where lib = ex_lib and kfuc = "ex_kfuc Map.empty (ex_keysFile [?r1, ?r2])" and recs = "[?r1, ?r2]"]
    by simp
  have b: "map_option DefaultRole (kfuc_users (fst (snd (keysFileUserCache_Update ex_lib
             (ex_kfuc Map.empty (ex_keysFile [?r1, ?r2]))))) ''alice'') = Some ''dev''"
    by (rule first [where rec = ?r1]) simp_all
  have c: "map_option DefaultRole (kfuc_users (fst (snd (keysFileUserCache_Update ex_lib
             (ex_kfuc Map.empty (ex_keysFile [?r2, ?r1]))))) ''alice'') = Some ''ops''"
    by (rule first [where rec = ?r2]) simp_all
  have d: "map_option DefaultRole (kfuc_users (fst (snd (keysFileUserCache_Update ex_lib
             (ex_kfuc Map.empty (ex_keysFile [?r3, ?r1]))))) ''alice'') = Some ''dev''"
    by (rule first [where rec = ?r1]) simp_all
  from a b c d show ?thesis by blast
qed

subsection \<open>Records without a user name\<close>

text \<open>
  C5: a record of the keys file without the user-name attribute, or with a value there that
  is not a string, makes the update panic at line 259; nothing is logged for the record,
  the records after it are not read, and the users of the records before it are not
  stored. The default role, one line below, is read with the two-value form of the same
  assertion, which does not panic.
\<close>

theorem keysFile_Update_panics_without_username:
  "keysFileUserCache_Update ex_lib
     (ex_kfuc Map.empty (ex_keysFile [ex_rec ''AAAA1'' ''alice'' ''dflt'' [],
                                      (''AAAA2'', [''roles'' \<mapsto> DList []]),
                                      ex_rec ''AAAA3'' ''carol'' ''dflt'' []])) =
     (Panics, ex_kfuc Map.empty (ex_keysFile [ex_rec ''AAAA1'' ''alice'' ''dflt'' [],
                                              (''AAAA2'', [''roles'' \<mapsto> DList []]),
                                              ex_rec ''AAAA3'' ''carol'' ''dflt'' []]),
      [TimeNow]) \<and>
   fst (keysFileUserCache_Update ex_lib
     (ex_kfuc Map.empty (ex_keysFile [(''AAAA2'', [''user'' \<mapsto> DOther, ''roles'' \<mapsto> DList []])]))) =
     Panics \<and>
   fst (keysFileUserCache_Update ex_lib
     (ex_kfuc Map.empty (ex_keysFile [(''AAAA2'', [''user'' \<mapsto> DString ''bob'', ''roles'' \<mapsto> DList []])]))) =
     Returns None"
  by (simp add: ex_defs model_defs)

end
